theory Spec2Isabelle
  imports Main "HOL-Library.Sublist"
begin

section \<open>Data model (types/chat.d.ts)\<close>

text \<open>
  The conversation session manager of the chat client: \<^verbatim>\<open>App.tsx\<close>,
  \<^verbatim>\<open>hooks/useSaveConversation.ts\<close>, \<^verbatim>\<open>components/AiMessage/index.tsx\<close>,
  \<^verbatim>\<open>components/MessageList/index.tsx\<close> and \<^verbatim>\<open>utils/api.ts\<close>.

  JavaScript strings are modelled as \<^typ>\<open>string\<close>. A value of type \<^verbatim>\<open>Date\<close> is a
  \<open>DateObj\<close> holding its epoch milliseconds; a date that went through
  \<^verbatim>\<open>JSON.stringify\<close> is the ISO-8601 string of the same instant, \<open>IsoString\<close>.
  An optional field (\<^verbatim>\<open>likes?: number\<close>) is an \<open>option\<close>, \<open>None\<close> being \<^verbatim>\<open>undefined\<close>.
  Field names that clash between the two interfaces or with HOL carry a prefix:
  \<open>mid\<close>, \<open>mtimestamp\<close> for \<^verbatim>\<open>Message.id\<close>, \<^verbatim>\<open>Message.timestamp\<close> and
  \<open>cid\<close>, \<open>ctimestamp\<close> for \<^verbatim>\<open>SavedConversation.id\<close>, \<^verbatim>\<open>SavedConversation.timestamp\<close>.
\<close>

datatype msg_role = User | Assistant

datatype js_date = DateObj nat | IsoString nat

fun getTime :: "js_date \<Rightarrow> nat" where
  "getTime (DateObj ms) = ms"
| "getTime (IsoString ms) = ms"

record message =
  mid :: string
  question :: string
  answer :: string
  imageUrls :: string
  mtimestamp :: js_date
  role :: msg_role
  match_score :: string
  confidence :: string
  likes :: "int option"
  dislikes :: "int option"
  liked :: "bool option"
  disliked :: "bool option"

record conversation =
  lastSaved :: js_date
  cid :: string
  title :: string
  messages :: "message list"
  ctimestamp :: js_date
  isCurrent :: "bool option"

text \<open>JavaScript truthiness of an optional boolean, and \<^verbatim>\<open>n || 0\<close> on an optional number.\<close>

definition truthy :: "bool option \<Rightarrow> bool" where
  "truthy b = (b = Some True)"

definition or0 :: "int option \<Rightarrow> int" where
  "or0 n = (case n of None \<Rightarrow> 0 | Some k \<Rightarrow> k)"

section \<open>Strings and clock-derived ids\<close>

text \<open>
  \<^verbatim>\<open>Number.prototype.toString\<close> on a non-negative integer: decimal digits, most
  significant first. \<^verbatim>\<open>Date.now()\<close> is a parameter \<open>now\<close> of every operation that
  reads the clock.
\<close>

definition digit_char :: "nat \<Rightarrow> char" where
  "digit_char d = char_of (48 + d)"

function toString :: "nat \<Rightarrow> string" where
  "toString n = (if n < 10 then [digit_char n] else toString (n div 10) @ [digit_char (n mod 10)])"
  by pat_completeness auto
termination
  by (relation "measure (\<lambda>n. n)") auto

declare toString.simps [simp del]

text \<open>
  A \<^typ>\<open>char\<close> stands for a UTF-16 code unit below 256 (Basic Latin and the Latin-1
  Supplement); strings with other code units are outside the model.
  \<^verbatim>\<open>String.prototype.trim\<close> removes white space and line terminators: in this range
  tab, line feed, vertical tab, form feed, carriage return, space and the no-break space
  U+00A0. \<^verbatim>\<open>toLowerCase\<close> maps the capital letters of the range, \<^verbatim>\<open>A\<close> to \<^verbatim>\<open>Z\<close> and
  U+00C0 to U+00DE without the multiplication sign U+00D7, to the code unit 32 above,
  and leaves every other code unit alone.
\<close>

definition is_space :: "char \<Rightarrow> bool" where
  "is_space c = (of_char c \<in> {9, 10, 11, 12, 13, 32, 160 :: nat})"

definition trim :: "string \<Rightarrow> string" where
  "trim s = rev (dropWhile is_space (rev (dropWhile is_space s)))"






text \<open>\<^verbatim>\<open>v || ''\<close> on an optional string.\<close>

definition or_empty :: "string option \<Rightarrow> string" where
  "or_empty v = (case v of None \<Rightarrow> [] | Some t \<Rightarrow> t)"

text \<open>Truthiness of \<^verbatim>\<open>string | null\<close>: \<^verbatim>\<open>null\<close> and the empty string are falsy.\<close>

definition truthy_id :: "string option \<Rightarrow> bool" where
  "truthy_id i = (case i of None \<Rightarrow> False | Some t \<Rightarrow> t \<noteq> [])"

section \<open>Application state (App.tsx)\<close>

text \<open>
  The React state of \<^verbatim>\<open>App\<close>. \<open>question_input\<close> is the state variable \<^verbatim>\<open>question\<close>,
  \<open>initialized\<close> is \<^verbatim>\<open>initializedRef.current\<close>. A handler reads the values of the
  render it was created in and queues updates; \<^verbatim>\<open>setSavedConversations\<close> has the
  \<^verbatim>\<open>useState\<close> contract, so the queued updates apply in call order. Helper functions
  that are called inside a handler therefore take two states: \<open>r\<close>, the render the
  closure reads, and \<open>s\<close>, the state the updates made so far have produced.
\<close>

record app_state =
  question_input :: string
  chatHistory :: "message list"
  isLoading :: bool
  snackbarOpen :: bool
  snackbarMessage :: string
  currentTitle :: string
  searchText :: string
  currentConversationId :: "string option"
  savedConversations :: "conversation list"
  initialized :: bool

section \<open>Search (App.tsx, effect on searchText and savedConversations)\<close>






section \<open>Titles (App.tsx, generateAutoTitle and the title effect)\<close>

datatype js_error = TypeError | RequestFailed

text \<open>
  \<^verbatim>\<open>generateAutoTitle(messages, timestamp)\<close>. The outcome of \<^verbatim>\<open>getTitle\<close> is a
  parameter: \<open>Inl\<close> when the request throws, \<open>Inr\<close> the \<^verbatim>\<open>title\<close> of the response.
  \<open>fmt\<close> is \<^verbatim>\<open>toLocaleTimeString\<close>, which depends on the locale of the browser.
\<close>

definition generateAutoTitle ::
  "(nat \<Rightarrow> string) \<Rightarrow> message list \<Rightarrow> nat \<Rightarrow> js_error + string \<Rightarrow> string" where
  "generateAutoTitle fmt msgs timestamp outcome =
     (case msgs of
        [] \<Rightarrow> ''Untitled Chat''
      | firstMessage # _ \<Rightarrow>
          (if question firstMessage \<noteq> [] then
             (case outcome of Inr t \<Rightarrow> t | Inl _ \<Rightarrow> ''Chat on '' @ fmt timestamp)
           else ''Chat on '' @ fmt timestamp))"

text \<open>
  The title effect runs whenever \<^verbatim>\<open>chatHistory\<close> changes. The pending request holds
  what its closure captured: the message list and the time of issue. Nothing else is
  recorded. When the request resolves, \<^verbatim>\<open>setCurrentTitle\<close> is called.
\<close>

record title_request =
  req_messages :: "message list"
  req_issued :: nat

definition issue_title_request :: "nat \<Rightarrow> app_state \<Rightarrow> title_request" where
  "issue_title_request now s = \<lparr>req_messages = chatHistory s, req_issued = now\<rparr>"

definition resolve_title_request ::
  "(nat \<Rightarrow> string) \<Rightarrow> title_request \<Rightarrow> js_error + string \<Rightarrow> app_state \<Rightarrow> app_state" where
  "resolve_title_request fmt req outcome s =
     s\<lparr>currentTitle := generateAutoTitle fmt (req_messages req) (req_issued req) outcome\<rparr>"

text \<open>The title of the current conversation as \<^verbatim>\<open>App\<close> computes it on every render.\<close>

definition stored_title :: "app_state \<Rightarrow> string" where
  "stored_title r =
     (if truthy_id (currentConversationId r) then
        (case find (\<lambda>convo. Some (cid convo) = currentConversationId r) (savedConversations r) of
           None \<Rightarrow> ''Untitled''
         | Some convo \<Rightarrow> (if title convo = [] then ''Untitled'' else title convo))
      else ''Untitled'')"

section \<open>Sending a message (App.tsx, handleSendMessage)\<close>

text \<open>
  One entry of the array \<^verbatim>\<open>sendQuestion\<close> resolves to. \<^verbatim>\<open>handleSendMessage\<close> also
  handles a resolved value that is not an array. \<open>now\<close> is the clock when the user
  message is built (its \<^verbatim>\<open>Date.now()\<close> and its \<^verbatim>\<open>new Date()\<close>), \<open>later\<close> the clock when
  the replies are built.
\<close>

record api_item =
  text_content :: "string option"
  image_sas_url :: "string option"
  item_match_score :: string
  item_confidence :: string

datatype api_response = Items "api_item list" | NotArray

definition userMessage :: "nat \<Rightarrow> string \<Rightarrow> message" where
  "userMessage now newQuestion =
     \<lparr>mid = toString now, question = newQuestion, answer = [], imageUrls = [],
      mtimestamp = DateObj now, role = User, match_score = [], confidence = [],
      likes = None, dislikes = None, liked = None, disliked = None\<rparr>"

definition apology :: string where
  "apology = ''I'm sorry, I don't have an answer for that.''"

definition aiMessages :: "message \<Rightarrow> nat \<Rightarrow> api_response \<Rightarrow> message list" where
  "aiMessages u later response =
     (case response of
        Items items \<Rightarrow>
          map (\<lambda>(index, item).
                 u\<lparr>mid := mid u @ ''-ai-'' @ toString index, question := [],
                   answer := or_empty (text_content item),
                   imageUrls := or_empty (image_sas_url item),
                   mtimestamp := DateObj later, role := Assistant,
                   match_score := item_match_score item, confidence := item_confidence item\<rparr>)
              (enumerate 0 items)
      | NotArray \<Rightarrow>
          [u\<lparr>mid := mid u @ ''-ai'', question := [], answer := apology, imageUrls := [],
             mtimestamp := DateObj later, role := Assistant, match_score := [],
             confidence := []\<rparr>])"

text \<open>
  The handler up to its \<^verbatim>\<open>await\<close>: the guard, then the user message is appended.
  \<open>None\<close> is the early \<^verbatim>\<open>return\<close>.
\<close>

definition send_begin :: "nat \<Rightarrow> app_state \<Rightarrow> (message \<times> app_state) option" where
  "send_begin now s =
     (if trim (question_input s) = [] \<or> isLoading s then None
      else
        (let u = userMessage now (trim (question_input s))
         in Some (u, s\<lparr>isLoading := True, chatHistory := chatHistory s @ [u],
                        question_input := []\<rparr>)))"

text \<open>The \<^verbatim>\<open>try\<close> block after the \<^verbatim>\<open>await\<close>, then \<^verbatim>\<open>catch\<close> and \<^verbatim>\<open>finally\<close>.\<close>

definition send_try :: "message \<Rightarrow> nat \<Rightarrow> js_error + api_response \<Rightarrow> app_state \<Rightarrow> js_error + app_state" where
  "send_try u later outcome s =
     (case outcome of
        Inl e \<Rightarrow> Inl e
      | Inr response \<Rightarrow> Inr (s\<lparr>chatHistory := chatHistory s @ aiMessages u later response\<rparr>))"

definition send_catch :: "app_state \<Rightarrow> js_error + app_state \<Rightarrow> js_error + app_state" where
  "send_catch s res =
     (case res of
        Inl e \<Rightarrow> Inr (s\<lparr>snackbarMessage := ''Failed to send message. Please try again.'',
                        snackbarOpen := True\<rparr>)
      | Inr s' \<Rightarrow> Inr s')"

definition send_finally :: "js_error + app_state \<Rightarrow> js_error + app_state" where
  "send_finally res = map_sum (\<lambda>e. e) (\<lambda>s'. s'\<lparr>isLoading := False\<rparr>) res"

definition handleSendMessage ::
  "nat \<Rightarrow> nat \<Rightarrow> js_error + api_response \<Rightarrow> app_state \<Rightarrow> js_error + app_state" where
  "handleSendMessage now later outcome s =
     (case send_begin now s of
        None \<Rightarrow> Inr s
      | Some (u, s1) \<Rightarrow> send_finally (send_catch s1 (send_try u later outcome s1)))"

text \<open>
  The part of the handler after the \<^verbatim>\<open>await\<close>, on the state it finds then: the
  updates it queues read nothing but the user message of the closure.
\<close>

definition send_complete ::
  "message \<Rightarrow> nat \<Rightarrow> js_error + api_response \<Rightarrow> app_state \<Rightarrow> js_error + app_state" where
  "send_complete u later outcome s = send_finally (send_catch s (send_try u later outcome s))"

definition handleCloseSnackbar :: "app_state \<Rightarrow> app_state" where
  "handleCloseSnackbar s = s\<lparr>snackbarOpen := False\<rparr>"

section \<open>Grouping replies under their user message (components/MessageList/index.tsx)\<close>

type_synonym group_acc = "message option \<times> message list \<times> (message \<times> message list) list"

definition push_group :: "group_acc \<Rightarrow> (message \<times> message list) list" where
  "push_group acc =
     (case acc of (currentUserMsg, aiReplies, groups) \<Rightarrow>
        (case currentUserMsg of None \<Rightarrow> groups | Some u \<Rightarrow> groups @ [(u, aiReplies)]))"

definition group_step :: "group_acc \<Rightarrow> message \<Rightarrow> group_acc" where
  "group_step acc msg =
     (case acc of (currentUserMsg, aiReplies, groups) \<Rightarrow>
        (if role msg = User then (Some msg, [], push_group acc)
         else if role msg = Assistant \<and> currentUserMsg \<noteq> None
              then (currentUserMsg, aiReplies @ [msg], groups)
         else acc))"

definition messageGroups :: "message list \<Rightarrow> (message \<times> message list) list" where
  "messageGroups history = push_group (foldl group_step (None, [], []) history)"

text \<open>The user id a reply id starts with: everything before the first hyphen.\<close>

definition origin_of :: "string \<Rightarrow> string" where
  "origin_of i = takeWhile (\<lambda>c. c \<noteq> CHR ''-'') i"

text \<open>The messages of a list that the id prefix alone assigns to a user message.\<close>

definition replies_by_prefix :: "message \<Rightarrow> message list \<Rightarrow> message list" where
  "replies_by_prefix u history = filter (\<lambda>m. prefix (mid u @ ''-ai'') (mid m)) history"


section \<open>Like and dislike (components/AiMessage/index.tsx)\<close>

text \<open>
  The body of \<^verbatim>\<open>handleLike\<close> on \<^verbatim>\<open>targetMsg\<close>: the counter is adjusted first, the
  flag is negated last.
\<close>

definition like_target :: "message \<Rightarrow> message" where
  "like_target m =
     (let m1 =
        (if truthy (liked m) then m\<lparr>likes := Some (or0 (likes m) - 1)\<rparr>
         else
           (let m2 = m\<lparr>likes := Some (or0 (likes m) + 1)\<rparr>
            in if truthy (disliked m2)
               then m2\<lparr>dislikes := Some (or0 (dislikes m2) - 1), disliked := Some False\<rparr>
               else m2))
      in m1\<lparr>liked := Some (\<not> truthy (liked m1))\<rparr>)"

definition dislike_target :: "message \<Rightarrow> message" where
  "dislike_target m =
     (let m1 =
        (if truthy (disliked m) then m\<lparr>dislikes := Some (or0 (dislikes m) - 1)\<rparr>
         else
           (let m2 = m\<lparr>dislikes := Some (or0 (dislikes m) + 1)\<rparr>
            in if truthy (liked m2)
               then m2\<lparr>likes := Some (or0 (likes m2) - 1), liked := Some False\<rparr>
               else m2))
      in m1\<lparr>disliked := Some (\<not> truthy (disliked m1))\<rparr>)"

text \<open>
  \<^verbatim>\<open>handleLike(index)\<close>: \<^verbatim>\<open>updatedMessages[index]\<close> is \<^verbatim>\<open>undefined\<close> out of range, and
  reading \<^verbatim>\<open>.liked\<close> of it throws.
\<close>

definition handleLike :: "nat \<Rightarrow> message list \<Rightarrow> js_error + message list" where
  "handleLike index msgs =
     (if index < length msgs then Inr (msgs[index := like_target (msgs ! index)])
      else Inl TypeError)"

definition handleDislike :: "nat \<Rightarrow> message list \<Rightarrow> js_error + message list" where
  "handleDislike index msgs =
     (if index < length msgs then Inr (msgs[index := dislike_target (msgs ! index)])
      else Inl TypeError)"

text \<open>
  A message as \<^verbatim>\<open>handleSendMessage\<close> builds it carries none of the four feedback fields;
  every later value of them is the result of a sequence of clicks on the two buttons.
\<close>

datatype toggle = Like | Dislike

fun toggle_target :: "toggle \<Rightarrow> message \<Rightarrow> message" where
  "toggle_target Like m = like_target m"
| "toggle_target Dislike m = dislike_target m"

definition no_feedback :: "message \<Rightarrow> bool" where
  "no_feedback m = (likes m = None \<and> dislikes m = None \<and> liked m = None \<and> disliked m = None)"

definition after_toggles :: "toggle list \<Rightarrow> message \<Rightarrow> message" where
  "after_toggles ts m = foldl (\<lambda>acc t. toggle_target t acc) m ts"

definition feedback_inv :: "message \<Rightarrow> bool" where
  "feedback_inv m =
     (0 \<le> or0 (likes m) \<and> 0 \<le> or0 (dislikes m)
      \<and> (truthy (liked m) \<longrightarrow> 1 \<le> or0 (likes m))
      \<and> (truthy (disliked m) \<longrightarrow> 1 \<le> or0 (dislikes m))
      \<and> \<not> (truthy (liked m) \<and> truthy (disliked m)))"


section \<open>Committing the active session (hooks/useSaveConversation.ts)\<close>

text \<open>
  The callback \<^verbatim>\<open>useSaveConversation\<close> returns. It has no \<^verbatim>\<open>await\<close>, so a call runs to
  its end before the caller continues. \<open>ttl\<close> is the \<^verbatim>\<open>currentTitle\<close> property.
  \<^verbatim>\<open>setSavedConversations\<close> is given a list computed from the list of the render,
  not an updater. The clock is read three times in a row (\<^verbatim>\<open>Date.now()\<close> and two
  \<^verbatim>\<open>new Date()\<close>); one reading \<open>now\<close> stands for the three.
\<close>

definition useSaveConversation :: "string \<Rightarrow> nat \<Rightarrow> app_state \<Rightarrow> app_state \<Rightarrow> app_state" where
  "useSaveConversation ttl now r s =
     (if length (chatHistory r) = 0 then s
      else
        (let newOrUpdatedConversation =
               \<lparr>lastSaved = DateObj now,
                cid = (case currentConversationId r of
                         None \<Rightarrow> toString now
                       | Some i \<Rightarrow> (if i = [] then toString now else i)),
                title = ttl, messages = chatHistory r, ctimestamp = DateObj now,
                isCurrent = None\<rparr>
         in (if \<not> truthy_id (currentConversationId r)
             then s\<lparr>savedConversations := newOrUpdatedConversation # savedConversations r,
                    currentConversationId := Some (cid newOrUpdatedConversation)\<rparr>
             else s\<lparr>savedConversations :=
                      map (\<lambda>convo. if cid convo = cid newOrUpdatedConversation
                                   then newOrUpdatedConversation else convo)
                          (savedConversations r),
                    currentConversationId := Some (cid newOrUpdatedConversation)\<rparr>)))"

definition saveCurrentConversation :: "nat \<Rightarrow> app_state \<Rightarrow> app_state \<Rightarrow> app_state" where
  "saveCurrentConversation now r s = useSaveConversation (stored_title r) now r s"

definition saveNewCurrentConversation :: "nat \<Rightarrow> app_state \<Rightarrow> app_state \<Rightarrow> app_state" where
  "saveNewCurrentConversation now r s = useSaveConversation (currentTitle r) now r s"

section \<open>Switching, deleting, starting a new chat (App.tsx)\<close>

definition setCurrent :: "string \<Rightarrow> conversation list \<Rightarrow> conversation list" where
  "setCurrent i prev = map (\<lambda>convo. convo\<lparr>isCurrent := Some (cid convo = i)\<rparr>) prev"

definition clearCurrent :: "conversation list \<Rightarrow> conversation list" where
  "clearCurrent prev = map (\<lambda>convo. convo\<lparr>isCurrent := Some False\<rparr>) prev"

text \<open>
  \<^verbatim>\<open>handleLoadConversation\<close>. The closing of the side bar on a narrow window is
  presentation and is left out.
\<close>

definition handleLoadConversation :: "conversation \<Rightarrow> app_state \<Rightarrow> app_state \<Rightarrow> app_state" where
  "handleLoadConversation conversation r s =
     (let s1 = s\<lparr>currentConversationId := Some (cid conversation)\<rparr>
      in if Some (cid conversation) \<noteq> currentConversationId r
         then s1\<lparr>chatHistory := messages conversation,
                 currentConversationId := Some (cid conversation),
                 savedConversations := setCurrent (cid conversation) (savedConversations s1)\<rparr>
         else s1)"

text \<open>
  \<^verbatim>\<open>handleClickConversation\<close>. The identifier \<^verbatim>\<open>length\<close> in its guard is not declared
  in the module: it is the global \<^verbatim>\<open>window.length\<close>, the number of frames of the
  window, here the parameter \<open>window_length\<close>.
\<close>

definition currentLen :: "app_state \<Rightarrow> nat" where
  "currentLen r =
     (case find (\<lambda>convo. Some (cid convo) = currentConversationId r) (savedConversations r) of
        None \<Rightarrow> 0
      | Some convo \<Rightarrow> length (messages convo))"

definition handleClickConversation :: "nat \<Rightarrow> nat \<Rightarrow> conversation \<Rightarrow> app_state \<Rightarrow> app_state" where
  "handleClickConversation window_length now conversation r =
     (let s1 =
        (if 0 < length (chatHistory r) \<and> window_length < length (chatHistory r)
            \<and> currentConversationId r \<noteq> Some (cid conversation)
         then
           (if currentLen r < length (chatHistory r) then
              (if currentConversationId r \<noteq> None then saveCurrentConversation now r r
               else saveNewCurrentConversation now r r)
            else r)
         else r)
      in handleLoadConversation conversation r (s1\<lparr>initialized := False\<rparr>))"

definition handleDeleteConversation :: "string \<Rightarrow> app_state \<Rightarrow> app_state" where
  "handleDeleteConversation i r =
     (let s1 = r\<lparr>savedConversations := filter (\<lambda>convo. cid convo \<noteq> i) (savedConversations r)\<rparr>
      in if Some i = currentConversationId r
         then s1\<lparr>chatHistory := [], currentConversationId := None\<rparr>
         else s1)"

text \<open>
  \<^verbatim>\<open>Array.prototype.sort\<close> is stable; the comparator orders by \<^verbatim>\<open>timestamp\<close>, latest
  first.
\<close>

definition sortConversationsByTimestamp :: "conversation list \<Rightarrow> conversation list" where
  "sortConversationsByTimestamp prev = sort_key (\<lambda>convo. - int (getTime (ctimestamp convo))) prev"

text \<open>
  \<^verbatim>\<open>handleNewChat\<close>, run without another handler in between: \<open>title_outcome\<close> is what
  the awaited \<^verbatim>\<open>getTitle\<close> yields.
\<close>

definition handleNewChat ::
  "(nat \<Rightarrow> string) \<Rightarrow> nat \<Rightarrow> js_error + string \<Rightarrow> app_state \<Rightarrow> app_state" where
  "handleNewChat fmt now title_outcome r =
     (let s1 = r\<lparr>currentConversationId := None,
                 savedConversations := clearCurrent (savedConversations r)\<rparr>;
          s2 =
            (if 0 < length (chatHistory r) then
               (if truthy_id (currentConversationId r) then
                  s1\<lparr>savedConversations :=
                       map (\<lambda>convo. if Some (cid convo) = currentConversationId r
                                    then convo\<lparr>messages := chatHistory r, ctimestamp := DateObj now,
                                               lastSaved := DateObj now, title := title convo\<rparr>
                                    else convo)
                           (savedConversations s1)\<rparr>
                else
                  (let newId = toString now;
                       ttl = generateAutoTitle fmt (chatHistory r) now title_outcome
                   in s1\<lparr>savedConversations :=
                          sortConversationsByTimestamp
                            (\<lparr>lastSaved = DateObj now, cid = newId, title = ttl,
                              messages = chatHistory r, ctimestamp = DateObj now,
                              isCurrent = Some False\<rparr>
                             # filter (\<lambda>convo. cid convo \<noteq> newId) (savedConversations s1))\<rparr>))
             else s1\<lparr>savedConversations := clearCurrent (savedConversations s1)\<rparr>)
      in s2\<lparr>chatHistory := [], currentConversationId := None\<rparr>)"

text \<open>
  The effect that reopens the last conversation (dependencies
  \<^verbatim>\<open>currentConversationId\<close>, \<^verbatim>\<open>savedConversations\<close>).
\<close>

definition restore_last_conversation :: "app_state \<Rightarrow> app_state" where
  "restore_last_conversation r =
     (if initialized r then r
      else if truthy_id (currentConversationId r) \<and> 0 < length (savedConversations r) then
        (case find (\<lambda>c. Some (cid c) = currentConversationId r) (savedConversations r) of
           None \<Rightarrow> r
         | Some conversation \<Rightarrow>
             r\<lparr>chatHistory := messages conversation,
               savedConversations := setCurrent (cid conversation) (savedConversations r),
               initialized := True\<rparr>)
      else r)"

section \<open>The durable snapshot (App.tsx, saveStateBeforeUnload and the startup effect)\<close>

text \<open>
  \<^verbatim>\<open>JSON.stringify\<close> writes a \<^verbatim>\<open>Date\<close> as its ISO string (\<^verbatim>\<open>toJSON\<close>) and leaves out
  \<^verbatim>\<open>undefined\<close> properties; \<^verbatim>\<open>JSON.parse\<close> without a reviver gives the string back, and
  an absent property reads as \<^verbatim>\<open>undefined\<close>. The text under a key is represented by
  the value \<^verbatim>\<open>JSON.parse\<close> reads from it.
\<close>

fun toJSON :: "js_date \<Rightarrow> js_date" where
  "toJSON (DateObj ms) = IsoString ms"
| "toJSON (IsoString ms) = IsoString ms"

datatype json_text = JsonText "message list"

definition JSON_stringify :: "message list \<Rightarrow> json_text" where
  "JSON_stringify msgs = JsonText (map (\<lambda>m. m\<lparr>mtimestamp := toJSON (mtimestamp m)\<rparr>) msgs)"

fun JSON_parse :: "json_text \<Rightarrow> message list" where
  "JSON_parse (JsonText v) = v"

record local_storage =
  item_currentChatHistory :: "json_text option"
  item_currentConversationId :: "string option"

definition saveStateBeforeUnload ::
  "(nat \<Rightarrow> string) \<Rightarrow> nat \<Rightarrow> js_error + string \<Rightarrow> app_state \<Rightarrow> local_storage
     \<Rightarrow> local_storage \<times> app_state" where
  "saveStateBeforeUnload fmt now title_outcome r ls =
     (ls\<lparr>item_currentChatHistory := Some (JSON_stringify (chatHistory r)),
         item_currentConversationId :=
           Some (case currentConversationId r of
                   None \<Rightarrow> ''null''
                 | Some i \<Rightarrow> (if i = [] then ''null'' else i))\<rparr>,
      if 0 < length (chatHistory r) \<and> \<not> truthy_id (currentConversationId r)
      then handleNewChat fmt now title_outcome r else r)"

text \<open>The state of the first render after a reload, and the startup effect.\<close>

definition initial_state :: "string \<Rightarrow> conversation list \<Rightarrow> app_state" where
  "initial_state text saved =
     \<lparr>question_input = [], chatHistory = [], isLoading = False, snackbarOpen = False,
      snackbarMessage = [], currentTitle = ''Untitled Chat'', searchText = text,
      currentConversationId = None, savedConversations = saved, initialized = False\<rparr>"

definition restore_on_startup :: "local_storage \<Rightarrow> app_state \<Rightarrow> app_state" where
  "restore_on_startup ls s =
     (let s1 = (case item_currentChatHistory ls of
                  None \<Rightarrow> s
                | Some savedHistory \<Rightarrow> s\<lparr>chatHistory := JSON_parse savedHistory\<rparr>)
      in (case item_currentConversationId ls of
            None \<Rightarrow> s1
          | Some savedConversationId \<Rightarrow>
              (if savedConversationId \<noteq> [] \<and> savedConversationId \<noteq> ''null''
               then s1\<lparr>currentConversationId := Some savedConversationId\<rparr>
               else s1)))"

section \<open>Reachable states\<close>

text \<open>
  The states the application reaches from an empty store. \<open>other\<close> stands for every
  step that leaves the saved conversations alone: typing, sending, feedback, a title
  that resolves, the search text, closing the notification.
\<close>

inductive reachable :: "app_state \<Rightarrow> bool" where
  start: "reachable (initial_state text [])"
| other: "reachable s \<Longrightarrow> savedConversations s' = savedConversations s \<Longrightarrow> reachable s'"
| click: "reachable s \<Longrightarrow> reachable (handleClickConversation window_length now conversation s)"
| new_chat: "reachable s \<Longrightarrow> reachable (handleNewChat fmt now title_outcome s)"
| delete: "reachable s \<Longrightarrow> reachable (handleDeleteConversation i s)"
| reopen: "reachable s \<Longrightarrow> reachable (restore_last_conversation s)"
| save: "reachable s \<Longrightarrow> reachable (useSaveConversation ttl now s s)"

definition ids :: "conversation list \<Rightarrow> string list" where
  "ids saved = map cid saved"

text \<open>
  The ids in store order, the ids of all stored messages, and the number of
  conversations whose \<^verbatim>\<open>isCurrent\<close> is true.
\<close>

definition stored_message_ids :: "conversation list \<Rightarrow> string list" where
  "stored_message_ids saved = map mid (concat (map messages saved))"

definition current_count :: "conversation list \<Rightarrow> nat" where
  "current_count saved = length (filter (\<lambda>convo. truthy (isCurrent convo)) saved)"

text \<open>All conversations that are current carry one and the same id.\<close>

definition current_ids_agree :: "conversation list \<Rightarrow> bool" where
  "current_ids_agree saved = (\<exists>i. \<forall>convo \<in> set saved. truthy (isCurrent convo) \<longrightarrow> cid convo = i)"

section \<open>Sample data\<close>

text \<open>
  Messages, conversations and states for the concrete runs below. \<open>sample_sent_twice\<close>
  is the state after two sends, both made when the clock reads 1000. \<open>sample_second_chat\<close>
  is reached from the empty store: a first chat is answered and committed by
  \<^verbatim>\<open>New chat\<close> at clock 3000 (it becomes \<open>first_chat\<close>), then a second chat gets a
  message.
\<close>

definition sample_reply :: message where
  "sample_reply =
     \<lparr>mid = ''1000-ai-0'', question = [], answer = ''Three parts prosecco.'', imageUrls = [],
      mtimestamp = DateObj 1001, role = Assistant, match_score = [], confidence = ''high'',
      likes = None, dislikes = None, liked = None, disliked = None\<rparr>"

definition sample_question :: message where
  "sample_question =
     \<lparr>mid = ''1000'', question = ''How do I mix an apero?'', answer = [], imageUrls = [],
      mtimestamp = DateObj 1000, role = User, match_score = [], confidence = [],
      likes = None, dislikes = None, liked = None, disliked = None\<rparr>"

definition aperol_spritz :: conversation where
  "aperol_spritz =
     \<lparr>lastSaved = DateObj 3000, cid = ''3000'', title = ''Aperol Spritz'', messages = [],
      ctimestamp = DateObj 3000, isCurrent = Some False\<rparr>"

definition negroni_sbagliato :: conversation where
  "negroni_sbagliato =
     \<lparr>lastSaved = DateObj 2000, cid = ''2000'', title = ''Negroni Sbagliato'',
      messages = [sample_question, sample_reply], ctimestamp = DateObj 2000,
      isCurrent = Some True\<rparr>"

definition campari_soda :: conversation where
  "campari_soda =
     \<lparr>lastSaved = IsoString 1500, cid = ''1500'', title = ''Campari Soda'', messages = [],
      ctimestamp = IsoString 1500, isCurrent = Some False\<rparr>"


definition sample_idle :: app_state where
  "sample_idle =
     \<lparr>question_input = ''  How much prosecco?  '', chatHistory = [], isLoading = False,
      snackbarOpen = False, snackbarMessage = [], currentTitle = ''Untitled Chat'',
      searchText = [], currentConversationId = None,
      savedConversations = [aperol_spritz, negroni_sbagliato, campari_soda],
      initialized = False\<rparr>"

definition sample_items :: "api_item list" where
  "sample_items =
     [\<lparr>text_content = Some ''Three parts prosecco, two parts Aperol.'', image_sas_url = Some [],
       item_match_score = [], item_confidence = ''high''\<rparr>,
      \<lparr>text_content = None, image_sas_url = Some ''https://img.example/spritz.png'',
       item_match_score = ''0.93'', item_confidence = []\<rparr>]"

definition sample_viewing :: app_state where
  "sample_viewing =
     \<lparr>question_input = [], chatHistory = [sample_question, sample_reply], isLoading = False,
      snackbarOpen = False, snackbarMessage = [], currentTitle = ''Untitled Chat'',
      searchText = [], currentConversationId = Some ''2000'',
      savedConversations = [aperol_spritz, negroni_sbagliato, campari_soda],
      initialized = True\<rparr>"

definition sample_asking :: app_state where
  "sample_asking = sample_viewing\<lparr>question_input := ''And with soda?''\<rparr>"

definition sample_sent_once :: app_state where
  "sample_sent_once =
     projr (handleSendMessage 1000 1001 (Inr (Items [hd sample_items])) sample_idle)"

definition sample_sent_twice :: app_state where
  "sample_sent_twice =
     projr (handleSendMessage 1000 1003 (Inr (Items [hd sample_items]))
              (sample_sent_once\<lparr>question_input := ''And with soda?''\<rparr>))"

definition empty_storage :: local_storage where
  "empty_storage = \<lparr>item_currentChatHistory = None, item_currentConversationId = None\<rparr>"

definition sample_reloaded :: app_state where
  "sample_reloaded =
     restore_on_startup
       (fst (saveStateBeforeUnload toString 9000 (Inl RequestFailed) sample_viewing empty_storage))
       (initial_state [] [aperol_spritz, negroni_sbagliato, campari_soda])"

definition sample_followup :: message where
  "sample_followup =
     \<lparr>mid = ''4000'', question = ''And with soda?'', answer = [], imageUrls = [],
      mtimestamp = DateObj 4000, role = User, match_score = [], confidence = [],
      likes = None, dislikes = None, liked = None, disliked = None\<rparr>"

definition sample_grown :: app_state where
  "sample_grown = sample_viewing\<lparr>chatHistory := [sample_question, sample_reply, sample_followup]\<rparr>"

definition first_chat :: conversation where
  "first_chat =
     \<lparr>lastSaved = DateObj 3000, cid = ''3000'', title = ''Aperol Spritz'',
      messages = [sample_question, sample_reply], ctimestamp = DateObj 3000,
      isCurrent = Some False\<rparr>"

definition sample_answered :: app_state where
  "sample_answered = (initial_state [] [])\<lparr>chatHistory := [sample_question, sample_reply]\<rparr>"

definition sample_second_chat :: app_state where
  "sample_second_chat =
     (handleNewChat toString 3000 (Inr ''Aperol Spritz'') sample_answered)
       \<lparr>chatHistory := [sample_followup]\<rparr>"

definition sample_clock_repeats :: app_state where
  "sample_clock_repeats = handleClickConversation 0 3000 first_chat sample_second_chat"

section \<open>Feedback counters\<close>

lemma feedback_inv_fresh: "no_feedback m \<Longrightarrow> feedback_inv m"
  by (simp add: no_feedback_def feedback_inv_def or0_def truthy_def)

lemma feedback_inv_like: "feedback_inv m \<Longrightarrow> feedback_inv (like_target m)"
  by (auto simp: feedback_inv_def like_target_def Let_def or0_def truthy_def
      split: option.splits)

lemma feedback_inv_dislike: "feedback_inv m \<Longrightarrow> feedback_inv (dislike_target m)"
  by (auto simp: feedback_inv_def dislike_target_def Let_def or0_def truthy_def
      split: option.splits)

lemma feedback_inv_toggle: "feedback_inv m \<Longrightarrow> feedback_inv (toggle_target t m)"
  by (cases t) (simp_all add: feedback_inv_like feedback_inv_dislike)

lemma feedback_inv_foldl:
  "feedback_inv m \<Longrightarrow> feedback_inv (foldl (\<lambda>acc t. toggle_target t acc) m ts)"
  by (induction ts arbitrary: m) (simp_all add: feedback_inv_toggle)

lemma feedback_inv_after_toggles:
  "no_feedback m0 \<Longrightarrow> feedback_inv (after_toggles ts m0)"
  unfolding after_toggles_def by (rule feedback_inv_foldl) (rule feedback_inv_fresh)

text \<open>
  C9. Like and dislike exclude each other, with exact counter deltas. For a message
  that \<^verbatim>\<open>handleSendMessage\<close> created (no feedback fields) and that any sequence of
  clicks on the two buttons has brought to \<open>m\<close>: a like on a disliked \<open>m\<close> sets the
  like flag, clears the dislike flag, takes exactly one off the dislike counter and
  adds exactly one to the like counter; the same with the two exchanged; after one more
  toggle the message is never both liked and disliked, and both counters are still at
  least zero.
\<close>

theorem like_dislike_exclusive:
  assumes "no_feedback m0" and "m = after_toggles ts m0"
  shows "(truthy (disliked m) \<longrightarrow>
            truthy (liked (like_target m)) \<and> \<not> truthy (disliked (like_target m))
            \<and> or0 (dislikes (like_target m)) = or0 (dislikes m) - 1
            \<and> or0 (likes (like_target m)) = or0 (likes m) + 1)
       \<and> (truthy (liked m) \<longrightarrow>
            truthy (disliked (dislike_target m)) \<and> \<not> truthy (liked (dislike_target m))
            \<and> or0 (likes (dislike_target m)) = or0 (likes m) - 1
            \<and> or0 (dislikes (dislike_target m)) = or0 (dislikes m) + 1)
       \<and> \<not> (truthy (liked (toggle_target t m)) \<and> truthy (disliked (toggle_target t m)))
       \<and> 0 \<le> or0 (likes (toggle_target t m)) \<and> 0 \<le> or0 (dislikes (toggle_target t m))"
proof -
  have inv: "feedback_inv m"
    using assms by (simp add: feedback_inv_after_toggles)
  have inv': "feedback_inv (toggle_target t m)"
    using inv by (rule feedback_inv_toggle)
  have a: "truthy (disliked m) \<longrightarrow>
            truthy (liked (like_target m)) \<and> \<not> truthy (disliked (like_target m))
            \<and> or0 (dislikes (like_target m)) = or0 (dislikes m) - 1
            \<and> or0 (likes (like_target m)) = or0 (likes m) + 1"
    using inv by (auto simp: feedback_inv_def like_target_def Let_def or0_def truthy_def)
  have b: "truthy (liked m) \<longrightarrow>
            truthy (disliked (dislike_target m)) \<and> \<not> truthy (liked (dislike_target m))
            \<and> or0 (likes (dislike_target m)) = or0 (likes m) - 1
            \<and> or0 (dislikes (dislike_target m)) = or0 (dislikes m) + 1"
    using inv by (auto simp: feedback_inv_def dislike_target_def Let_def or0_def truthy_def)
  from a b inv' show ?thesis
    by (simp add: feedback_inv_def)
qed

theorem like_dislike_exclusive_witness:
  "no_feedback sample_reply
   \<and> truthy (disliked (after_toggles [Dislike] sample_reply))
   \<and> truthy (liked (like_target (after_toggles [Dislike] sample_reply)))
   \<and> \<not> truthy (disliked (like_target (after_toggles [Dislike] sample_reply)))
   \<and> or0 (dislikes (like_target (after_toggles [Dislike] sample_reply))) = 0
   \<and> or0 (likes (like_target (after_toggles [Dislike] sample_reply))) = 1
   \<and> truthy (liked (after_toggles [Dislike, Like] sample_reply))
   \<and> or0 (likes (dislike_target (after_toggles [Dislike, Like] sample_reply))) = 0
   \<and> or0 (dislikes (dislike_target (after_toggles [Dislike, Like] sample_reply))) = 1"
proof -
  have f: "no_feedback sample_reply"
    by (simp add: no_feedback_def sample_reply_def)
  have d: "truthy (disliked (after_toggles [Dislike] sample_reply))"
    by (simp add: after_toggles_def dislike_target_def sample_reply_def truthy_def or0_def Let_def)
  have d0: "or0 (dislikes (after_toggles [Dislike] sample_reply)) = 1"
       "or0 (likes (after_toggles [Dislike] sample_reply)) = 0"
    by (simp_all add: after_toggles_def dislike_target_def sample_reply_def truthy_def or0_def Let_def)
  have l: "truthy (liked (after_toggles [Dislike, Like] sample_reply))"
    by (simp add: after_toggles_def dislike_target_def like_target_def sample_reply_def truthy_def or0_def Let_def)
  have l0: "or0 (likes (after_toggles [Dislike, Like] sample_reply)) = 1"
       "or0 (dislikes (after_toggles [Dislike, Like] sample_reply)) = 0"
    by (simp_all add: after_toggles_def dislike_target_def like_target_def sample_reply_def truthy_def or0_def Let_def)
  from like_dislike_exclusive [OF f refl, of "[Dislike]" Like] d d0
  have 1: "truthy (liked (like_target (after_toggles [Dislike] sample_reply)))
   \<and> \<not> truthy (disliked (like_target (after_toggles [Dislike] sample_reply)))
   \<and> or0 (dislikes (like_target (after_toggles [Dislike] sample_reply))) = 0
   \<and> or0 (likes (like_target (after_toggles [Dislike] sample_reply))) = 1"
    by simp
  from like_dislike_exclusive [OF f refl, of "[Dislike, Like]" Like] l l0
  have 2: "or0 (likes (dislike_target (after_toggles [Dislike, Like] sample_reply))) = 0
   \<and> or0 (dislikes (dislike_target (after_toggles [Dislike, Like] sample_reply))) = 1"
    by simp
  from f d l 1 2 show ?thesis by simp
qed

section \<open>Search\<close>












section \<open>Sending\<close>

lemma send_begin_accepts:
  "trim (question_input s) \<noteq> [] \<Longrightarrow> \<not> isLoading s \<Longrightarrow>
   send_begin now s =
     Some (userMessage now (trim (question_input s)),
           s\<lparr>isLoading := True,
             chatHistory := chatHistory s @ [userMessage now (trim (question_input s))],
             question_input := []\<rparr>)"
  by (simp add: send_begin_def Let_def)

lemma trim_sample_idle: "trim (question_input sample_idle) = ''How much prosecco?''"
  by (simp add: sample_idle_def trim_def is_space_def)

lemma digit_chars:
  "digit_char 0 = CHR ''0''" "digit_char 1 = CHR ''1''" "digit_char 2 = CHR ''2''"
  "digit_char 3 = CHR ''3''" "digit_char 4 = CHR ''4''" "digit_char 5 = CHR ''5''"
  "digit_char 6 = CHR ''6''" "digit_char 7 = CHR ''7''" "digit_char 8 = CHR ''8''"
  "digit_char 9 = CHR ''9''" "digit_char (Suc 0) = CHR ''1''"
  by (simp_all add: digit_char_def char_of_def bit_0)

lemma digit_char_not_hyphen: "d < 10 \<Longrightarrow> digit_char d \<noteq> CHR ''-''"
proof
  assume d: "d < 10" and "digit_char d = CHR ''-''"
  then have "(of_char (char_of (48 + d)) :: nat) = of_char (CHR ''-'')"
    by (simp add: digit_char_def)
  with d show False by simp
qed

lemma toString_no_hyphen: "CHR ''-'' \<notin> set (toString n)"
proof (induction n rule: toString.induct)
  case (1 n)
  show ?case
  proof (cases "n < 10")
    case True
    then show ?thesis
      using digit_char_not_hyphen [of n] by (subst toString.simps) auto
  next
    case False
    then have "CHR ''-'' \<notin> set (toString (n div 10))"
      using "1" by simp
    moreover have "digit_char (n mod 10) \<noteq> CHR ''-''"
      by (rule digit_char_not_hyphen) simp
    ultimately show ?thesis
      using False by (subst toString.simps) auto
  qed
qed

lemma origin_of_reply: "CHR ''-'' \<notin> set i \<Longrightarrow> origin_of (i @ CHR ''-'' # rest) = i"
  unfolding origin_of_def by (induction i) auto

lemma aiMessages_length: "length (aiMessages u later (Items items)) = length items"
  by (simp add: aiMessages_def)

lemma aiMessages_nth:
  "i < length items \<Longrightarrow>
   aiMessages u later (Items items) ! i =
     u\<lparr>mid := mid u @ ''-ai-'' @ toString i, question := [],
       answer := or_empty (text_content (items ! i)),
       imageUrls := or_empty (image_sas_url (items ! i)),
       mtimestamp := DateObj later, role := Assistant,
       match_score := item_match_score (items ! i), confidence := item_confidence (items ! i)\<rparr>"
  by (simp add: aiMessages_def nth_enumerate_eq)

lemma aiMessages_member:
  assumes "m \<in> set (aiMessages u later response)"
  shows "role m = Assistant \<and> question m = [] \<and> prefix (mid u @ ''-ai'') (mid m)
         \<and> (\<exists>rest. mid m = mid u @ CHR ''-'' # rest)"
proof (cases response)
  case (Items items)
  with assms obtain i where "i < length items" and "m = aiMessages u later (Items items) ! i"
    by (metis aiMessages_length in_set_conv_nth)
  then show ?thesis
    by (simp add: aiMessages_nth)
next
  case NotArray
  with assms show ?thesis
    by (simp add: aiMessages_def)
qed

lemma foldl_group_step_replies:
  "list_all (\<lambda>m. role m = Assistant) ais \<Longrightarrow>
   foldl group_step (Some u, rs, gs) ais = (Some u, rs @ ais, gs)"
  by (induction ais arbitrary: rs) (simp_all add: group_step_def)

lemma messageGroups_append_turn:
  assumes "role u = User" and "list_all (\<lambda>m. role m = Assistant) ais"
  shows "messageGroups (prev @ u # ais) = messageGroups prev @ [(u, ais)]"
proof -
  obtain cur rs gs where acc: "foldl group_step (None, [], []) prev = (cur, rs, gs)"
    by (cases "foldl group_step (None, [], []) prev") auto
  have "foldl group_step (None, [], []) (prev @ u # ais)
        = foldl group_step (Some u, [], push_group (cur, rs, gs)) ais"
    using assms(1) by (simp add: acc group_step_def)
  also have "\<dots> = (Some u, ais, push_group (cur, rs, gs))"
    using foldl_group_step_replies [OF assms(2), of u "[]"] by simp
  finally show ?thesis
    by (simp add: messageGroups_def acc push_group_def)
qed

lemma handleSendMessage_resolved:
  "trim (question_input s) \<noteq> [] \<Longrightarrow> \<not> isLoading s \<Longrightarrow>
   handleSendMessage now later (Inr response) s =
     Inr (s\<lparr>isLoading := False,
            chatHistory := chatHistory s @ userMessage now (trim (question_input s))
                             # aiMessages (userMessage now (trim (question_input s))) later response,
            question_input := []\<rparr>)"
  by (simp add: handleSendMessage_def send_begin_accepts send_try_def send_catch_def
      send_finally_def)

lemma handleSendMessage_thrown:
  "trim (question_input s) \<noteq> [] \<Longrightarrow> \<not> isLoading s \<Longrightarrow>
   handleSendMessage now later (Inl e) s =
     Inr (s\<lparr>isLoading := False,
            chatHistory := chatHistory s @ [userMessage now (trim (question_input s))],
            question_input := [],
            snackbarMessage := ''Failed to send message. Please try again.'',
            snackbarOpen := True\<rparr>)"
  by (simp add: handleSendMessage_def send_begin_accepts send_try_def send_catch_def
      send_finally_def)

text \<open>
  C4. A failing answer request is handled inside \<^verbatim>\<open>handleSendMessage\<close>. For every send
  that passes the guard (a question that is not blank, no send in flight) and whose
  request throws: the handler returns normally (\<open>Inr\<close>); the message list is the former
  list followed by the new user message, unaltered; the in-flight flag is cleared; the
  failure shows only as the notification, which \<^verbatim>\<open>handleCloseSnackbar\<close> dismisses;
  the saved conversations and the active id are untouched; and a next question passes
  the guard again.
\<close>

theorem send_failure_is_local:
  assumes "trim (question_input s) \<noteq> []" and "\<not> isLoading s"
  shows "\<exists>s'. handleSendMessage now later (Inl e) s = Inr s'
           \<and> chatHistory s' = chatHistory s @ [userMessage now (trim (question_input s))]
           \<and> \<not> isLoading s'
           \<and> snackbarOpen s'
           \<and> snackbarMessage s' = ''Failed to send message. Please try again.''
           \<and> \<not> snackbarOpen (handleCloseSnackbar s')
           \<and> savedConversations s' = savedConversations s
           \<and> currentConversationId s' = currentConversationId s
           \<and> (\<forall>q now'. trim q \<noteq> [] \<longrightarrow> send_begin now' (s'\<lparr>question_input := q\<rparr>) \<noteq> None)"
  using assms
  by (simp add: handleSendMessage_def send_begin_accepts send_try_def send_catch_def
      send_finally_def handleCloseSnackbar_def send_begin_def Let_def)

theorem send_failure_is_local_witness:
  "trim (question_input sample_idle) \<noteq> [] \<and> \<not> isLoading sample_idle
   \<and> (\<exists>s'. handleSendMessage 1000 1200 (Inl RequestFailed) sample_idle = Inr s'
           \<and> chatHistory s' = [userMessage 1000 ''How much prosecco?'']
           \<and> \<not> isLoading s' \<and> snackbarOpen s'
           \<and> \<not> snackbarOpen (handleCloseSnackbar s')
           \<and> send_begin 2000 (s'\<lparr>question_input := ''How much prosecco?''\<rparr>) \<noteq> None)"
proof -
  have a: "trim (question_input sample_idle) \<noteq> []"
    by (simp add: trim_sample_idle)
  have b: "\<not> isLoading sample_idle" and c: "chatHistory sample_idle = []"
    by (simp_all add: sample_idle_def)
  have d: "trim ''How much prosecco?'' \<noteq> []"
    by (simp add: trim_def is_space_def)
  from send_failure_is_local [OF a b, of 1000 1200 RequestFailed]
  obtain s' where "handleSendMessage 1000 1200 (Inl RequestFailed) sample_idle = Inr s'"
    and "chatHistory s' = chatHistory sample_idle @ [userMessage 1000 (trim (question_input sample_idle))]"
    and "\<not> isLoading s'" and "snackbarOpen s'" and "\<not> snackbarOpen (handleCloseSnackbar s')"
    and "\<forall>q now'. trim q \<noteq> [] \<longrightarrow> send_begin now' (s'\<lparr>question_input := q\<rparr>) \<noteq> None"
    by blast
  with a b d show ?thesis
    by (auto simp: trim_sample_idle c)
qed

lemma send_begin_Some:
  assumes "send_begin now s = Some (u, s1)"
  shows "u = userMessage now (trim (question_input s))"
    and "s1 = s\<lparr>isLoading := True, chatHistory := chatHistory s @ [u], question_input := []\<rparr>"
  using assms by (auto simp: send_begin_def Let_def split: if_splits)

lemma send_complete_resolved:
  "send_complete u later (Inr response) s2 =
     Inr (s2\<lparr>chatHistory := chatHistory s2 @ aiMessages u later response, isLoading := False\<rparr>)"
  by (simp add: send_complete_def send_try_def send_catch_def send_finally_def)

lemma handleSendMessage_send_complete:
  "send_begin now s = Some (u, s1) \<Longrightarrow>
   handleSendMessage now later outcome s = send_complete u later outcome s1"
  by (simp add: handleSendMessage_def send_complete_def)

lemma prefix_longer: "\<not> prefix (i @ ''-ai'') i"
  by (auto dest: prefix_length_le)

lemma replies_by_prefix_turn:
  assumes "\<forall>m \<in> set h. \<not> prefix (mid u @ ''-ai'') (mid m)"
    and "\<forall>m \<in> set replies. prefix (mid u @ ''-ai'') (mid m)"
  shows "replies_by_prefix u (h @ u # replies) = replies"
proof -
  have "filter (\<lambda>m. prefix (mid u @ ''-ai'') (mid m)) h = []"
    using assms(1) by (simp add: filter_empty_conv)
  moreover have "filter (\<lambda>m. prefix (mid u @ ''-ai'') (mid m)) replies = replies"
    using assms(2) by (simp add: filter_id_conv)
  ultimately show ?thesis
    by (simp add: replies_by_prefix_def prefix_longer)
qed

text \<open>
  C10, as the code has it. For every send that passes the guard, the user message \<open>u\<close>
  has the decimal clock reading as its id and is put last; and when the request
  resolves, on whatever state \<open>cur\<close> the application is in by then: the replies are put
  after the messages of \<open>cur\<close>; every reply has the assistant role, an empty question,
  an id that starts with the id of \<open>u\<close> followed by \<^verbatim>\<open>-ai\<close>, and the id of \<open>u\<close> is read
  back from it as the part before the first hyphen; for an array the replies are one per
  item, in the order of the array, the reply at index \<open>i\<close> having the suffix
  \<^verbatim>\<open>-ai-i\<close> and the text of item \<open>i\<close>; otherwise the single reply has the suffix
  \<^verbatim>\<open>-ai\<close>. If the message list of \<open>cur\<close> still ends with \<open>u\<close>, the grouping that
  \<^verbatim>\<open>MessageList\<close> computes by position puts exactly these replies under \<open>u\<close>; and if
  moreover no earlier message has an id that starts with the id of \<open>u\<close> followed by
  \<^verbatim>\<open>-ai\<close>, the messages with that id prefix are exactly these replies. The handler run
  without another handler in between is the case where \<open>cur\<close> is the state the send left.
\<close>

theorem assistant_ids_encode_turn:
  assumes "send_begin now s = Some (u, s1)"
  shows "mid u = toString now \<and> role u = User \<and> chatHistory s1 = chatHistory s @ [u]
       \<and> handleSendMessage now later (Inr response) s = send_complete u later (Inr response) s1
       \<and> (\<exists>s' replies. send_complete u later (Inr response) cur = Inr s'
             \<and> chatHistory s' = chatHistory cur @ replies
             \<and> (\<forall>m \<in> set replies. role m = Assistant \<and> question m = []
                    \<and> prefix (mid u @ ''-ai'') (mid m) \<and> origin_of (mid m) = mid u)
             \<and> (\<forall>items. response = Items items \<longrightarrow>
                    length replies = length items
                    \<and> (\<forall>i < length items.
                          mid (replies ! i) = mid u @ ''-ai-'' @ toString i
                          \<and> answer (replies ! i) = or_empty (text_content (items ! i))))
             \<and> (response = NotArray \<longrightarrow> map mid replies = [mid u @ ''-ai''])
             \<and> (\<forall>h. chatHistory cur = h @ [u] \<longrightarrow>
                    messageGroups (chatHistory s') = messageGroups h @ [(u, replies)]
                    \<and> ((\<forall>m \<in> set h. \<not> prefix (mid u @ ''-ai'') (mid m)) \<longrightarrow>
                           replies_by_prefix u (chatHistory s') = replies)))"
proof -
  let ?replies = "aiMessages u later response"
  let ?s' = "cur\<lparr>chatHistory := chatHistory cur @ ?replies, isLoading := False\<rparr>"
  note b = send_begin_Some [OF assms]
  have user: "mid u = toString now" "role u = User"
    by (simp_all add: b(1) userMessage_def)
  have last: "chatHistory s1 = chatHistory s @ [u]"
    by (simp add: b(2))
  have whole: "handleSendMessage now later (Inr response) s = send_complete u later (Inr response) s1"
    using assms by (rule handleSendMessage_send_complete)
  have run: "send_complete u later (Inr response) cur = Inr ?s'"
    by (rule send_complete_resolved)
  have hist: "chatHistory ?s' = chatHistory cur @ ?replies"
    by simp
  have uid: "CHR ''-'' \<notin> set (mid u)"
    by (simp add: user toString_no_hyphen)
  have each: "\<forall>m \<in> set ?replies. role m = Assistant \<and> question m = []
                  \<and> prefix (mid u @ ''-ai'') (mid m) \<and> origin_of (mid m) = mid u"
  proof
    fix m assume "m \<in> set ?replies"
    from aiMessages_member [OF this] uid show "role m = Assistant \<and> question m = []
                  \<and> prefix (mid u @ ''-ai'') (mid m) \<and> origin_of (mid m) = mid u"
      by (auto simp: origin_of_reply)
  qed
  have arr: "\<forall>items. response = Items items \<longrightarrow>
                  length ?replies = length items
                  \<and> (\<forall>i < length items.
                        mid (?replies ! i) = mid u @ ''-ai-'' @ toString i
                        \<and> answer (?replies ! i) = or_empty (text_content (items ! i)))"
    by (simp add: aiMessages_length aiMessages_nth)
  have single: "response = NotArray \<longrightarrow> map mid ?replies = [mid u @ ''-ai'']"
    by (simp add: aiMessages_def)
  have all_ai: "list_all (\<lambda>m. role m = Assistant) ?replies"
    using each by (simp add: list_all_iff)
  have pre: "\<forall>m \<in> set ?replies. prefix (mid u @ ''-ai'') (mid m)"
    using each by blast
  have grp: "\<forall>h. chatHistory cur = h @ [u] \<longrightarrow>
                    messageGroups (chatHistory ?s') = messageGroups h @ [(u, ?replies)]
                    \<and> ((\<forall>m \<in> set h. \<not> prefix (mid u @ ''-ai'') (mid m)) \<longrightarrow>
                           replies_by_prefix u (chatHistory ?s') = ?replies)"
  proof (intro allI impI conjI)
    fix h assume h: "chatHistory cur = h @ [u]"
    show "messageGroups (chatHistory ?s') = messageGroups h @ [(u, ?replies)]"
      using messageGroups_append_turn [OF user(2) all_ai, of h] by (simp add: h)
    assume "\<forall>m \<in> set h. \<not> prefix (mid u @ ''-ai'') (mid m)"
    from replies_by_prefix_turn [OF this pre]
    show "replies_by_prefix u (chatHistory ?s') = ?replies"
      by (simp add: h)
  qed
  have "\<exists>s' replies. send_complete u later (Inr response) cur = Inr s'
             \<and> chatHistory s' = chatHistory cur @ replies
             \<and> (\<forall>m \<in> set replies. role m = Assistant \<and> question m = []
                    \<and> prefix (mid u @ ''-ai'') (mid m) \<and> origin_of (mid m) = mid u)
             \<and> (\<forall>items. response = Items items \<longrightarrow>
                    length replies = length items
                    \<and> (\<forall>i < length items.
                          mid (replies ! i) = mid u @ ''-ai-'' @ toString i
                          \<and> answer (replies ! i) = or_empty (text_content (items ! i))))
             \<and> (response = NotArray \<longrightarrow> map mid replies = [mid u @ ''-ai''])
             \<and> (\<forall>h. chatHistory cur = h @ [u] \<longrightarrow>
                    messageGroups (chatHistory s') = messageGroups h @ [(u, replies)]
                    \<and> ((\<forall>m \<in> set h. \<not> prefix (mid u @ ''-ai'') (mid m)) \<longrightarrow>
                           replies_by_prefix u (chatHistory s') = replies))"
    using run hist each arr single grp
    by - (intro exI [of _ ?s'] exI [of _ ?replies] conjI, assumption+)
  with user last whole show ?thesis
    by - (intro conjI, assumption+)
qed

lemma toString_4000: "toString 4000 = ''4000''"
  by (simp add: toString.simps digit_chars)

lemma toString_1000: "toString 1000 = ''1000''"
  by (simp add: toString.simps digit_chars)

lemma toString_0: "toString 0 = ''0''"
  by (simp add: toString.simps digit_chars)

theorem assistant_ids_encode_turn_witness:
  "send_begin 4000 sample_asking \<noteq> None
   \<and> (\<exists>s' replies. handleSendMessage 4000 4001 (Inr (Items sample_items)) sample_asking = Inr s'
          \<and> chatHistory s'
              = [sample_question, sample_reply, userMessage 4000 ''And with soda?''] @ replies
          \<and> length replies = 2
          \<and> mid (replies ! 1) = ''4000-ai-'' @ toString 1
          \<and> answer (replies ! 1) = []
          \<and> role (replies ! 1) = Assistant
          \<and> origin_of (mid (replies ! 1)) = ''4000''
          \<and> messageGroups (chatHistory s')
              = messageGroups [sample_question, sample_reply]
                @ [(userMessage 4000 ''And with soda?'', replies)]
          \<and> replies_by_prefix (userMessage 4000 ''And with soda?'') (chatHistory s') = replies)"
proof -
  let ?u = "userMessage 4000 ''And with soda?''"
  let ?s1 = "sample_asking\<lparr>isLoading := True, chatHistory := chatHistory sample_asking @ [?u],
                            question_input := []\<rparr>"
  have t: "trim (question_input sample_asking) = ''And with soda?''"
    by (simp add: sample_asking_def trim_def is_space_def)
  have sb: "send_begin 4000 sample_asking = Some (?u, ?s1)"
    by (simp add: send_begin_def Let_def t) (simp add: sample_asking_def sample_viewing_def)
  have h: "chatHistory ?s1 = [sample_question, sample_reply] @ [?u]"
    by (simp add: sample_asking_def sample_viewing_def)
  have uid: "mid ?u = ''4000''"
    by (simp add: userMessage_def toString_4000)
  have fresh: "\<forall>m \<in> set [sample_question, sample_reply]. \<not> prefix (mid ?u @ ''-ai'') (mid m)"
    by (simp add: uid sample_question_def sample_reply_def)
  have n: "length sample_items = 2" and tc: "or_empty (text_content (sample_items ! Suc 0)) = []"
    by (simp_all add: sample_items_def or_empty_def)
  note inst = assistant_ids_encode_turn [OF sb, where later = 4001 and response = "Items sample_items"
                                         and cur = "?s1"]
  from inst obtain s' replies where
    r: "send_complete ?u 4001 (Inr (Items sample_items)) ?s1 = Inr s'"
    and c: "chatHistory s' = chatHistory ?s1 @ replies"
    and e: "\<forall>m \<in> set replies. role m = Assistant \<and> question m = []
                  \<and> prefix (mid ?u @ ''-ai'') (mid m) \<and> origin_of (mid m) = mid ?u"
    and i: "\<forall>items. Items sample_items = Items items \<longrightarrow>
                  length replies = length items
                  \<and> (\<forall>i < length items.
                        mid (replies ! i) = mid ?u @ ''-ai-'' @ toString i
                        \<and> answer (replies ! i) = or_empty (text_content (items ! i)))"
    and g: "\<forall>h. chatHistory ?s1 = h @ [?u] \<longrightarrow>
                    messageGroups (chatHistory s') = messageGroups h @ [(?u, replies)]
                    \<and> ((\<forall>m \<in> set h. \<not> prefix (mid ?u @ ''-ai'') (mid m)) \<longrightarrow>
                           replies_by_prefix ?u (chatHistory s') = replies)"
    by (elim conjE exE)
  from inst have w: "handleSendMessage 4000 4001 (Inr (Items sample_items)) sample_asking
                    = send_complete ?u 4001 (Inr (Items sample_items)) ?s1"
    by (elim conjE)
  from i [rule_format, OF refl] n have len: "length replies = 2"
    and at1: "mid (replies ! 1) = mid ?u @ ''-ai-'' @ toString 1"
             "answer (replies ! 1) = or_empty (text_content (sample_items ! 1))"
    by simp_all
  from len have "replies ! 1 \<in> set replies"
    by simp
  with e have r1: "role (replies ! 1) = Assistant" "origin_of (mid (replies ! 1)) = mid ?u"
    by blast+
  from g [rule_format, OF h] fresh
  have g1: "messageGroups (chatHistory s') = messageGroups [sample_question, sample_reply] @ [(?u, replies)]"
    and g2: "replies_by_prefix ?u (chatHistory s') = replies"
    by blast+
  have c': "chatHistory s' = [sample_question, sample_reply, ?u] @ replies"
    using c h by simp
  have "handleSendMessage 4000 4001 (Inr (Items sample_items)) sample_asking = Inr s'
          \<and> chatHistory s' = [sample_question, sample_reply, ?u] @ replies
          \<and> length replies = 2
          \<and> mid (replies ! 1) = ''4000-ai-'' @ toString 1
          \<and> answer (replies ! 1) = []
          \<and> role (replies ! 1) = Assistant
          \<and> origin_of (mid (replies ! 1)) = ''4000''
          \<and> messageGroups (chatHistory s')
              = messageGroups [sample_question, sample_reply] @ [(?u, replies)]
          \<and> replies_by_prefix ?u (chatHistory s') = replies"
    using w r c' len at1 r1 g1 g2 by (simp add: uid tc)
  then show ?thesis
    using sb by blast
qed

text \<open>
  C10 as stated fails in its last part. Two questions are sent, both when the clock
  reads 1000, each answered by one item: the two user messages have the same id, so
  have the two replies; by position each user message has one reply, by the id prefix
  the first user message has both.
\<close>

theorem same_clock_turns_share_ids:
  "map mid (chatHistory sample_sent_twice) = [''1000'', ''1000-ai-0'', ''1000'', ''1000-ai-0'']
   \<and> map (map mid) (map snd (messageGroups (chatHistory sample_sent_twice)))
       = [[''1000-ai-0''], [''1000-ai-0'']]
   \<and> map mid (replies_by_prefix (hd (chatHistory sample_sent_twice)) (chatHistory sample_sent_twice))
       = [''1000-ai-0'', ''1000-ai-0'']
   \<and> replies_by_prefix (hd (chatHistory sample_sent_twice)) (chatHistory sample_sent_twice)
       \<noteq> snd (hd (messageGroups (chatHistory sample_sent_twice)))"
proof -
  let ?u1 = "userMessage 1000 ''How much prosecco?''"
  let ?u2 = "userMessage 1000 ''And with soda?''"
  let ?a1 = "aiMessages ?u1 1001 (Items [hd sample_items])"
  let ?a2 = "aiMessages ?u2 1003 (Items [hd sample_items])"
  have t1: "trim (question_input sample_idle) \<noteq> []"
    by (simp add: trim_sample_idle)
  have l1: "\<not> isLoading sample_idle"
    by (simp add: sample_idle_def)
  have once: "sample_sent_once =
      sample_idle\<lparr>isLoading := False, chatHistory := ?u1 # ?a1, question_input := []\<rparr>"
    unfolding sample_sent_once_def handleSendMessage_resolved [OF t1 l1]
    by (simp add: trim_sample_idle) (simp add: sample_idle_def)
  have t3: "trim ''And with soda?'' = ''And with soda?''"
    by (simp add: trim_def is_space_def)
  have t2: "trim (question_input (sample_sent_once\<lparr>question_input := ''And with soda?''\<rparr>)) \<noteq> []"
    by (simp add: t3)
  have l2: "\<not> isLoading (sample_sent_once\<lparr>question_input := ''And with soda?''\<rparr>)"
    by (simp add: once)
  have twice: "chatHistory sample_sent_twice = (?u1 # ?a1) @ ?u2 # ?a2"
    unfolding sample_sent_twice_def handleSendMessage_resolved [OF t2 l2]
    by (simp add: t3) (simp add: once)
  have a1: "map mid ?a1 = [''1000-ai-0'']" and a2: "map mid ?a2 = [''1000-ai-0'']"
    by (simp_all add: aiMessages_def userMessage_def toString_1000 toString_0)
  have u: "mid ?u1 = ''1000''" "mid ?u2 = ''1000''" "role ?u1 = User" "role ?u2 = User"
    by (simp_all add: userMessage_def toString_1000)
  have r1: "list_all (\<lambda>m. role m = Assistant) ?a1" and r2: "list_all (\<lambda>m. role m = Assistant) ?a2"
    by (simp_all add: aiMessages_def)
  have ids: "map mid (chatHistory sample_sent_twice) = [''1000'', ''1000-ai-0'', ''1000'', ''1000-ai-0'']"
    by (simp add: twice a1 a2 u)
  have "messageGroups ([] @ ?u1 # ?a1) = messageGroups [] @ [(?u1, ?a1)]"
    by (rule messageGroups_append_turn [OF u(3) r1])
  then have g1: "messageGroups (?u1 # ?a1) = [(?u1, ?a1)]"
    by (simp add: messageGroups_def push_group_def)
  have groups: "messageGroups (chatHistory sample_sent_twice) = [(?u1, ?a1), (?u2, ?a2)]"
    unfolding twice using messageGroups_append_turn [OF u(4) r2, of "?u1 # ?a1"] g1 by simp
  have hd1: "hd (chatHistory sample_sent_twice) = ?u1"
    by (simp add: twice)
  have byp: "replies_by_prefix ?u1 (chatHistory sample_sent_twice) = ?a1 @ ?a2"
    by (simp add: twice replies_by_prefix_def aiMessages_def userMessage_def toString_1000)
  have "length (?a1 @ ?a2) \<noteq> length ?a1"
    by (simp add: aiMessages_def)
  then have ne: "?a1 @ ?a2 \<noteq> ?a1"
    by (metis)
  show ?thesis
    using ids groups byp ne by (simp add: hd1 a1 a2)
qed

text \<open>
  C3, as the code has it. The apology is the reply to a resolved value that is not an
  array: then exactly one assistant message with the fixed text follows the user
  message. When the request throws, no assistant message is appended: the user message
  stays last and the notification is shown. An array appends one assistant message per
  item.
\<close>

theorem fallback_reply_only_without_array:
  assumes "trim (question_input s) \<noteq> []" and "\<not> isLoading s"
    and "u = userMessage now (trim (question_input s))"
  shows "(\<exists>s' a. handleSendMessage now later (Inr NotArray) s = Inr s'
            \<and> chatHistory s' = chatHistory s @ [u, a]
            \<and> role a = Assistant \<and> answer a = apology)
       \<and> (\<exists>s'. handleSendMessage now later (Inl e) s = Inr s'
            \<and> chatHistory s' = chatHistory s @ [u]
            \<and> snackbarOpen s'
            \<and> snackbarMessage s' = ''Failed to send message. Please try again.'')
       \<and> (\<exists>s' replies. handleSendMessage now later (Inr (Items items)) s = Inr s'
            \<and> chatHistory s' = chatHistory s @ u # replies
            \<and> map role replies = replicate (length items) Assistant)"
proof -
  have "map role (aiMessages u later (Items items)) = replicate (length items) Assistant"
    by (rule nth_equalityI) (simp_all add: aiMessages_length aiMessages_nth)
  then show ?thesis
    using assms
    by (simp add: handleSendMessage_resolved handleSendMessage_thrown aiMessages_def)
qed

theorem fallback_reply_only_without_array_witness:
  "trim (question_input sample_idle) \<noteq> [] \<and> \<not> isLoading sample_idle
   \<and> (\<exists>s' a. handleSendMessage 1000 1200 (Inr NotArray) sample_idle = Inr s'
          \<and> chatHistory s' = [userMessage 1000 ''How much prosecco?'', a]
          \<and> role a = Assistant \<and> answer a = apology)
   \<and> (\<exists>s'. handleSendMessage 1000 1200 (Inl RequestFailed) sample_idle = Inr s'
          \<and> chatHistory s' = [userMessage 1000 ''How much prosecco?''])"
proof -
  have a: "trim (question_input sample_idle) \<noteq> []"
    by (simp add: trim_sample_idle)
  have b: "\<not> isLoading sample_idle" and c: "chatHistory sample_idle = []"
    by (simp_all add: sample_idle_def)
  from fallback_reply_only_without_array [OF a b refl, of 1000 1200 RequestFailed "[]"]
  show ?thesis
    using a b by (auto simp: trim_sample_idle c)
qed

text \<open>
  C3 as stated fails when the request throws: after the send the message list
  consists of the user message alone.
\<close>

theorem failed_send_appends_no_reply:
  "map role (chatHistory (projr (handleSendMessage 1000 1200 (Inl RequestFailed) sample_idle)))
     = [User]"
proof -
  have a: "trim (question_input sample_idle) \<noteq> []"
    by (simp add: trim_sample_idle)
  have b: "\<not> isLoading sample_idle" and c: "chatHistory sample_idle = []"
    by (simp_all add: sample_idle_def)
  show ?thesis
    by (simp add: handleSendMessage_thrown [OF a b] c userMessage_def)
qed

section \<open>Titles\<close>

lemma handleClickConversation_title:
  "currentTitle (handleClickConversation window_length now conversation s) = currentTitle s"
  by (simp add: handleClickConversation_def handleLoadConversation_def Let_def
      saveCurrentConversation_def saveNewCurrentConversation_def useSaveConversation_def)

text \<open>
  C2, as the code has it. A title request carries no tag: it is the same request
  whatever the active conversation id is. In the run \<open>issue the request in state s;
  switch to another conversation; the request resolves\<close>, the resolution leaves the saved
  conversations (so the title of every stored conversation, the target of the switch
  included), the message list and the active id as the switch left them; it is not
  discarded, though: it overwrites \<^verbatim>\<open>currentTitle\<close> with the title generated for the
  messages of the conversation that was left.
\<close>

theorem resolved_title_leaves_store:
  "issue_title_request t (s\<lparr>currentConversationId := other\<rparr>) = issue_title_request t s
   \<and> savedConversations
        (resolve_title_request fmt (issue_title_request t s) outcome
           (handleClickConversation window_length now conversation s))
       = savedConversations (handleClickConversation window_length now conversation s)
   \<and> chatHistory
        (resolve_title_request fmt (issue_title_request t s) outcome
           (handleClickConversation window_length now conversation s))
       = chatHistory (handleClickConversation window_length now conversation s)
   \<and> currentConversationId
        (resolve_title_request fmt (issue_title_request t s) outcome
           (handleClickConversation window_length now conversation s))
       = currentConversationId (handleClickConversation window_length now conversation s)
   \<and> currentTitle
        (resolve_title_request fmt (issue_title_request t s) outcome
           (handleClickConversation window_length now conversation s))
       = generateAutoTitle fmt (chatHistory s) t outcome"
  by (simp add: resolve_title_request_def issue_title_request_def)

text \<open>
  C2 as stated fails: the request is issued while conversation \<^verbatim>\<open>2000\<close> is active, the
  user switches to conversation \<^verbatim>\<open>3000\<close>, and the title that resolves afterwards
  replaces the current title.
\<close>

theorem stale_title_is_applied:
  "currentConversationId sample_viewing = Some ''2000''
   \<and> currentConversationId (handleClickConversation 0 5001 aperol_spritz sample_viewing)
       = Some ''3000''
   \<and> currentTitle (handleClickConversation 0 5001 aperol_spritz sample_viewing)
       = ''Untitled Chat''
   \<and> currentTitle
        (resolve_title_request toString (issue_title_request 5000 sample_viewing)
           (Inr ''Sbagliato basics'')
           (handleClickConversation 0 5001 aperol_spritz sample_viewing))
       = ''Sbagliato basics''"
proof -
  have "currentConversationId (handleClickConversation 0 5001 aperol_spritz sample_viewing)
       = Some ''3000''"
    by (simp add: handleClickConversation_def handleLoadConversation_def Let_def
        aperol_spritz_def sample_viewing_def)
  moreover have "generateAutoTitle toString (chatHistory sample_viewing) 5000 (Inr ''Sbagliato basics'')
       = ''Sbagliato basics''"
    by (simp add: generateAutoTitle_def sample_viewing_def sample_question_def)
  ultimately show ?thesis
    by (simp add: resolve_title_request_def issue_title_request_def handleClickConversation_title)
       (simp add: sample_viewing_def)
qed

section \<open>The durable snapshot\<close>

lemma JSON_round_trip:
  "JSON_parse (JSON_stringify msgs) = map (\<lambda>m. m\<lparr>mtimestamp := toJSON (mtimestamp m)\<rparr>) msgs"
  by (simp add: JSON_stringify_def)

lemma getTime_toJSON: "getTime (toJSON d) = getTime d"
  by (cases d) simp_all

lemma toJSON_IsoString: "d = IsoString (getTime d) \<Longrightarrow> toJSON d = d"
  by (cases d) simp_all

text \<open>
  C7, as the code has it. Writing the snapshot and running the startup effect on the
  state of a fresh page gives a message list of the same length and order in which
  every message equals the original in every field but the timestamp, which comes
  back as the ISO string of the same instant; a list whose timestamps are such strings
  already comes back identical. The active id comes back the same, \<^verbatim>\<open>null\<close> as
  \<^verbatim>\<open>null\<close>, for every id but the empty string and the sentinel itself.
\<close>

theorem snapshot_round_trip:
  assumes "currentConversationId s \<noteq> Some []" and "currentConversationId s \<noteq> Some ''null''"
    and "s' = restore_on_startup (fst (saveStateBeforeUnload fmt now title_outcome s ls))
                (initial_state text saved)"
  shows "chatHistory s' = map (\<lambda>m. m\<lparr>mtimestamp := toJSON (mtimestamp m)\<rparr>) (chatHistory s)
       \<and> length (chatHistory s') = length (chatHistory s)
       \<and> map (\<lambda>m. getTime (mtimestamp m)) (chatHistory s')
           = map (\<lambda>m. getTime (mtimestamp m)) (chatHistory s)
       \<and> (list_all (\<lambda>m. mtimestamp m = IsoString (getTime (mtimestamp m))) (chatHistory s)
            \<longrightarrow> chatHistory s' = chatHistory s)
       \<and> currentConversationId s' = currentConversationId s"
proof -
  have h: "chatHistory s' = map (\<lambda>m. m\<lparr>mtimestamp := toJSON (mtimestamp m)\<rparr>) (chatHistory s)"
    using assms
    by (cases "currentConversationId s")
       (simp_all add: restore_on_startup_def saveStateBeforeUnload_def JSON_round_trip
          initial_state_def Let_def)
  have i: "currentConversationId s' = currentConversationId s"
    using assms
    by (cases "currentConversationId s")
       (simp_all add: restore_on_startup_def saveStateBeforeUnload_def initial_state_def Let_def)
  have t: "map (\<lambda>m. getTime (mtimestamp m)) (chatHistory s')
           = map (\<lambda>m. getTime (mtimestamp m)) (chatHistory s)"
    by (simp add: h getTime_toJSON comp_def)
  have e: "list_all (\<lambda>m. mtimestamp m = IsoString (getTime (mtimestamp m))) (chatHistory s)
            \<longrightarrow> chatHistory s' = chatHistory s"
  proof
    assume "list_all (\<lambda>m. mtimestamp m = IsoString (getTime (mtimestamp m))) (chatHistory s)"
    then have "map (\<lambda>m. m\<lparr>mtimestamp := toJSON (mtimestamp m)\<rparr>) (chatHistory s) = chatHistory s"
      by (intro map_idI) (simp add: list_all_iff toJSON_IsoString)
    with h show "chatHistory s' = chatHistory s" by simp
  qed
  from h i t e show ?thesis by simp
qed

lemma sample_reloaded_eq:
  "sample_reloaded =
     (initial_state [] [aperol_spritz, negroni_sbagliato, campari_soda])
       \<lparr>chatHistory := [sample_question\<lparr>mtimestamp := IsoString 1000\<rparr>,
                        sample_reply\<lparr>mtimestamp := IsoString 1001\<rparr>],
        currentConversationId := Some ''2000''\<rparr>"
  by (simp add: sample_reloaded_def restore_on_startup_def saveStateBeforeUnload_def
      JSON_round_trip sample_viewing_def empty_storage_def Let_def sample_question_def
      sample_reply_def)

theorem snapshot_round_trip_witness:
  "currentConversationId sample_reloaded \<noteq> Some [] 
   \<and> currentConversationId sample_reloaded \<noteq> Some ''null''
   \<and> list_all (\<lambda>m. mtimestamp m = IsoString (getTime (mtimestamp m))) (chatHistory sample_reloaded)
   \<and> chatHistory
        (restore_on_startup
           (fst (saveStateBeforeUnload toString 9500 (Inl RequestFailed) sample_reloaded empty_storage))
           (initial_state [] [])) = chatHistory sample_reloaded
   \<and> currentConversationId
        (restore_on_startup
           (fst (saveStateBeforeUnload toString 9500 (Inl RequestFailed) sample_reloaded empty_storage))
           (initial_state [] [])) = Some ''2000''"
proof -
  have a: "currentConversationId sample_reloaded \<noteq> Some []"
    and b: "currentConversationId sample_reloaded \<noteq> Some ''null''"
    and c: "list_all (\<lambda>m. mtimestamp m = IsoString (getTime (mtimestamp m))) (chatHistory sample_reloaded)"
    and d: "currentConversationId sample_reloaded = Some ''2000''"
    by (simp_all add: sample_reloaded_eq sample_question_def sample_reply_def)
  note rt = snapshot_round_trip [OF a b refl, of toString 9500 "Inl RequestFailed" empty_storage "[]" "[]"]
  from rt c have h: "chatHistory
        (restore_on_startup
           (fst (saveStateBeforeUnload toString 9500 (Inl RequestFailed) sample_reloaded empty_storage))
           (initial_state [] [])) = chatHistory sample_reloaded"
    by blast
  from rt d have i: "currentConversationId
        (restore_on_startup
           (fst (saveStateBeforeUnload toString 9500 (Inl RequestFailed) sample_reloaded empty_storage))
           (initial_state [] [])) = Some ''2000''"
    by simp
  from a b c h i show ?thesis
    by blast
qed

text \<open>
  C7 as stated fails for messages that hold \<^verbatim>\<open>Date\<close> objects, as every message
  \<^verbatim>\<open>handleSendMessage\<close> creates does: the restored list differs from the original.
\<close>

theorem snapshot_changes_dates:
  "chatHistory
     (restore_on_startup
        (fst (saveStateBeforeUnload toString 9000 (Inl RequestFailed) sample_viewing empty_storage))
        (initial_state [] [aperol_spritz, negroni_sbagliato, campari_soda]))
   \<noteq> chatHistory sample_viewing"
  by (simp add: restore_on_startup_def saveStateBeforeUnload_def JSON_round_trip
      sample_viewing_def empty_storage_def Let_def sample_question_def sample_reply_def)

section \<open>Clicking a conversation\<close>

lemma find_never: "find (\<lambda>convo. False) saved = None"
  by (induction saved) simp_all

lemma currentLen_None: "currentConversationId s = None \<Longrightarrow> currentLen s = 0"
  by (simp add: currentLen_def find_never)

lemma click_loads:
  "currentConversationId s \<noteq> Some (cid conversation) \<Longrightarrow>
   chatHistory (handleClickConversation window_length now conversation s) = messages conversation
   \<and> currentConversationId (handleClickConversation window_length now conversation s)
       = Some (cid conversation)"
  by (auto simp add: handleClickConversation_def handleLoadConversation_def Let_def)

lemma click_without_commit:
  "length (chatHistory s) \<le> currentLen s \<Longrightarrow> currentConversationId s \<noteq> Some (cid conversation) \<Longrightarrow>
   savedConversations (handleClickConversation window_length now conversation s)
     = setCurrent (cid conversation) (savedConversations s)"
  by (simp add: handleClickConversation_def handleLoadConversation_def Let_def)

lemma click_commits_new:
  assumes "currentConversationId s = None"
    and "window_length < length (chatHistory s)"
  shows "savedConversations (handleClickConversation window_length now conversation s)
     = setCurrent (cid conversation)
         (\<lparr>lastSaved = DateObj now, cid = toString now, title = currentTitle s,
           messages = chatHistory s, ctimestamp = DateObj now, isCurrent = None\<rparr>
          # savedConversations s)"
proof -
  have "chatHistory s \<noteq> []"
    using assms(2) by auto
  with assms show ?thesis
    by (simp add: handleClickConversation_def handleLoadConversation_def Let_def currentLen_None
        saveNewCurrentConversation_def useSaveConversation_def truthy_id_def)
qed

section \<open>Identifiers and the current flag\<close>

lemma toString_3000: "toString 3000 = ''3000''"
  by (simp add: toString.simps digit_chars)

lemma sample_second_chat_eq:
  "sample_second_chat =
     (initial_state [] [first_chat])\<lparr>chatHistory := [sample_followup]\<rparr>"
  by (simp add: sample_second_chat_def sample_answered_def handleNewChat_def Let_def
      initial_state_def truthy_id_def clearCurrent_def sortConversationsByTimestamp_def
      generateAutoTitle_def sample_question_def toString_3000 first_chat_def)

lemma sample_clock_repeats_store:
  "savedConversations sample_clock_repeats =
     [\<lparr>lastSaved = DateObj 3000, cid = ''3000'', title = ''Untitled Chat'',
       messages = [sample_followup], ctimestamp = DateObj 3000, isCurrent = Some True\<rparr>,
      first_chat\<lparr>isCurrent := Some True\<rparr>]"
  by (simp add: sample_clock_repeats_def sample_second_chat_eq click_commits_new
      initial_state_def setCurrent_def toString_3000)
     (simp add: first_chat_def)

lemma sample_clock_repeats_reachable: "reachable sample_clock_repeats"
proof -
  have "reachable (initial_state [] [])"
    by (rule reachable.start)
  then have "reachable sample_answered"
    by (rule reachable.other) (simp add: sample_answered_def)
  then have "reachable (handleNewChat toString 3000 (Inr ''Aperol Spritz'') sample_answered)"
    by (rule reachable.new_chat)
  then have "reachable sample_second_chat"
    by (rule reachable.other) (simp add: sample_second_chat_def)
  then show ?thesis
    unfolding sample_clock_repeats_def by (rule reachable.click)
qed

lemma ids_setCurrent: "ids (setCurrent i saved) = ids saved"
  by (simp add: ids_def setCurrent_def comp_def)

lemma ids_clearCurrent: "ids (clearCurrent saved) = ids saved"
  by (simp add: ids_def clearCurrent_def comp_def)

lemma distinct_ids_sort:
  "distinct (ids (sortConversationsByTimestamp saved)) = distinct (ids saved)"
  by (simp add: ids_def sortConversationsByTimestamp_def distinct_map)

lemma ids_replace:
  "ids (map (\<lambda>convo. if cid convo = a then new else convo) saved) = ids saved" if "cid new = a"
  using that by (induction saved) (simp_all add: ids_def)

lemma ids_update_existing:
  "ids (map (\<lambda>convo. if P convo then convo\<lparr>messages := ms, ctimestamp := t1, lastSaved := t2,
                                             title := title convo\<rparr> else convo) saved) = ids saved"
  by (induction saved) (simp_all add: ids_def)

lemma distinct_ids_filter: "distinct (ids saved) \<Longrightarrow> distinct (ids (filter P saved))"
  by (simp add: ids_def distinct_map_filter)

lemma new_chat_keeps_ids_distinct:
  assumes "distinct (ids (savedConversations s))"
  shows "distinct (ids (savedConversations (handleNewChat fmt now title_outcome s)))"
proof -
  have "distinct (ids (\<lparr>lastSaved = DateObj now, cid = toString now, title = t,
                         messages = chatHistory s, ctimestamp = DateObj now, isCurrent = Some False\<rparr>
                       # filter (\<lambda>convo. cid convo \<noteq> toString now) (clearCurrent (savedConversations s))))"
    for t
    using assms distinct_ids_filter [of "clearCurrent (savedConversations s)"]
    by (auto simp: ids_def clearCurrent_def comp_def)
  with assms show ?thesis
    by (simp add: handleNewChat_def Let_def ids_clearCurrent ids_update_existing distinct_ids_sort)
qed

lemma delete_keeps_ids_distinct:
  "distinct (ids (savedConversations s)) \<Longrightarrow>
   distinct (ids (savedConversations (handleDeleteConversation i s)))"
  by (simp add: handleDeleteConversation_def Let_def distinct_ids_filter)

lemma reopen_keeps_ids: "ids (savedConversations (restore_last_conversation s)) = ids (savedConversations s)"
  by (simp add: restore_last_conversation_def ids_setCurrent split: option.splits)

lemma load_keeps_ids:
  "ids (savedConversations (handleLoadConversation conversation r s)) = ids (savedConversations s)"
  by (simp add: handleLoadConversation_def Let_def ids_setCurrent)

lemma save_existing_keeps_ids:
  "truthy_id (currentConversationId s) \<Longrightarrow>
   ids (savedConversations (useSaveConversation ttl now s s)) = ids (savedConversations s)"
  by (cases "currentConversationId s")
     (simp_all add: useSaveConversation_def Let_def truthy_id_def ids_replace)

lemma save_new_ids:
  "\<not> truthy_id (currentConversationId s) \<Longrightarrow> chatHistory s \<noteq> [] \<Longrightarrow>
   ids (savedConversations (useSaveConversation ttl now s s)) = toString now # ids (savedConversations s)"
  by (cases "currentConversationId s")
     (simp_all add: useSaveConversation_def Let_def truthy_id_def ids_def)

lemma save_keeps_ids_distinct:
  assumes "distinct (ids (savedConversations s))"
    and "truthy_id (currentConversationId s) \<or> toString now \<notin> set (ids (savedConversations s))"
  shows "distinct (ids (savedConversations (useSaveConversation ttl now s s)))"
proof (cases "truthy_id (currentConversationId s)")
  case True
  with assms show ?thesis by (simp add: save_existing_keeps_ids)
next
  case False
  show ?thesis
  proof (cases "chatHistory s = []")
    case True
    with assms show ?thesis by (simp add: useSaveConversation_def)
  next
    case False
    with \<open>\<not> truthy_id (currentConversationId s)\<close> assms show ?thesis
      by (simp add: save_new_ids)
  qed
qed

lemma click_keeps_ids_distinct:
  assumes "distinct (ids (savedConversations s))"
    and "truthy_id (currentConversationId s) \<or> toString now \<notin> set (ids (savedConversations s))"
  shows "distinct (ids (savedConversations (handleClickConversation window_length now conversation s)))"
  using save_keeps_ids_distinct [OF assms, of "stored_title s"]
        save_keeps_ids_distinct [OF assms, of "currentTitle s"] assms(1)
  by (simp add: handleClickConversation_def Let_def load_keeps_ids saveCurrentConversation_def
      saveNewCurrentConversation_def)

lemma load_sets_current_exactly:
  "currentConversationId r \<noteq> Some (cid conversation) \<Longrightarrow>
   map isCurrent (savedConversations (handleLoadConversation conversation r s))
     = map (\<lambda>convo. Some (cid convo = cid conversation)) (savedConversations s)"
  by (simp add: handleLoadConversation_def Let_def setCurrent_def)

lemma set_sortConversationsByTimestamp: "set (sortConversationsByTimestamp saved) = set saved"
  by (simp add: sortConversationsByTimestamp_def)

lemma new_chat_clears_current:
  "convo \<in> set (savedConversations (handleNewChat fmt now title_outcome s)) \<Longrightarrow>
   \<not> truthy (isCurrent convo)"
  by (auto simp: handleNewChat_def Let_def clearCurrent_def set_sortConversationsByTimestamp
      truthy_def split: if_splits)

lemma current_ids_agree_setCurrent: "current_ids_agree (setCurrent i saved)"
  unfolding current_ids_agree_def setCurrent_def truthy_def by (intro exI [of _ i]) auto

lemma current_ids_agree_subset:
  "current_ids_agree saved \<Longrightarrow>
   (\<And>convo. convo \<in> set saved' \<Longrightarrow> truthy (isCurrent convo) \<Longrightarrow> convo \<in> set saved) \<Longrightarrow>
   current_ids_agree saved'"
  unfolding current_ids_agree_def by blast

lemma current_ids_agree_save:
  assumes "current_ids_agree (savedConversations s)"
  shows "current_ids_agree (savedConversations (useSaveConversation ttl now s s))"
  using assms
  by (rule current_ids_agree_subset)
     (auto simp: useSaveConversation_def Let_def truthy_def split: if_splits)

lemma current_ids_agree_click:
  assumes "current_ids_agree (savedConversations s)"
  shows "current_ids_agree (savedConversations (handleClickConversation window_length now conversation s))"
proof (cases "currentConversationId s = Some (cid conversation)")
  case True
  with assms show ?thesis
    by (simp add: handleClickConversation_def handleLoadConversation_def Let_def)
next
  case False
  then show ?thesis
    by (simp add: handleClickConversation_def handleLoadConversation_def Let_def
        current_ids_agree_setCurrent)
qed

lemma reachable_current_ids_agree: "reachable s \<Longrightarrow> current_ids_agree (savedConversations s)"
proof (induction rule: reachable.induct)
  case (start t)
  then show ?case by (simp add: initial_state_def current_ids_agree_def)
next
  case (other s s')
  then show ?case by simp
next
  case (click s window_length now conversation)
  from click.IH show ?case by (rule current_ids_agree_click)
next
  case (new_chat s fmt now title_outcome)
  show ?case
    unfolding current_ids_agree_def using new_chat_clears_current by blast
next
  case (delete s i)
  from delete.IH show ?case
    by (rule current_ids_agree_subset) (auto simp: handleDeleteConversation_def Let_def split: if_splits)
next
  case (reopen s)
  from reopen.IH show ?case
    by (auto simp: restore_last_conversation_def current_ids_agree_setCurrent split: option.splits)
next
  case (save s ttl now)
  from save.IH show ?case by (rule current_ids_agree_save)
qed

lemma at_most_one_equal: "distinct xs \<Longrightarrow> \<forall>x \<in> set xs. x = i \<Longrightarrow> length xs \<le> Suc 0"
  by (cases xs; cases "tl xs") auto

lemma single_current_when_ids_distinct:
  assumes "reachable s" and "distinct (ids (savedConversations s))"
  shows "current_count (savedConversations s) \<le> 1"
proof -
  from reachable_current_ids_agree [OF assms(1)] obtain i
    where i: "\<forall>convo \<in> set (savedConversations s). truthy (isCurrent convo) \<longrightarrow> cid convo = i"
    unfolding current_ids_agree_def by blast
  let ?cur = "filter (\<lambda>convo. truthy (isCurrent convo)) (savedConversations s)"
  have "distinct (map cid ?cur)"
    using assms(2) by (simp add: ids_def distinct_map_filter)
  moreover have "\<forall>x \<in> set (map cid ?cur). x = i"
    using i by auto
  ultimately have "length (map cid ?cur) \<le> Suc 0"
    by (rule at_most_one_equal)
  then show ?thesis
    by (simp add: current_count_def)
qed

text \<open>
  C6. Id uniqueness: the saved conversations never hold two entries with the same id.
  The code breaks it in the save callback. \<^verbatim>\<open>handleNewChat\<close> removes a stored
  conversation with the id it is about to insert (\<open>new_chat_keeps_ids_distinct\<close> holds
  for every clock reading); \<^verbatim>\<open>useSaveConversation\<close> puts the new conversation in front
  of the list as it is, so the ids stay distinct only when the clock gives a value that
  is not stored yet (\<open>save_keeps_ids_distinct\<close>). The run: a first chat is committed by
  \<^verbatim>\<open>New chat\<close> when the clock reads 3000; a second chat gets one message; the user clicks
  the stored conversation when the clock reads 3000 again. The state before the click
  is reachable and has distinct ids; after the click the store holds the id \<^verbatim>\<open>3000\<close>
  twice.
\<close>

theorem save_hook_duplicates_id:
  "reachable sample_second_chat
   \<and> ids (savedConversations sample_second_chat) = [''3000'']
   \<and> currentConversationId sample_second_chat = None
   \<and> ids (savedConversations (handleClickConversation 0 3000 first_chat sample_second_chat))
       = [''3000'', ''3000'']
   \<and> \<not> distinct (ids (savedConversations (handleClickConversation 0 3000 first_chat sample_second_chat)))"
proof -
  have "reachable sample_answered"
    by (rule reachable.other [OF reachable.start [of "[]"]]) (simp add: sample_answered_def)
  then have "reachable (handleNewChat toString 3000 (Inr ''Aperol Spritz'') sample_answered)"
    by (rule reachable.new_chat)
  then have "reachable sample_second_chat"
    by (rule reachable.other) (simp add: sample_second_chat_def)
  moreover have "ids (savedConversations sample_second_chat) = [''3000'']"
    and "currentConversationId sample_second_chat = None"
    by (simp_all add: sample_second_chat_eq initial_state_def ids_def first_chat_def)
  moreover have "ids (savedConversations (handleClickConversation 0 3000 first_chat sample_second_chat))
       = [''3000'', ''3000'']"
    using sample_clock_repeats_store
    by (simp add: sample_clock_repeats_def ids_def first_chat_def)
  ultimately show ?thesis
    by simp
qed

text \<open>
  C5. Single current conversation: in every reachable state at most one stored
  conversation has \<^verbatim>\<open>isCurrent\<close> true. The code breaks it in the run above, by the same
  defect: the load sets \<^verbatim>\<open>isCurrent\<close> on every conversation that has the target id, and
  there are two, so the state reached has two current conversations. With distinct ids
  at most one conversation is current in every reachable state
  (\<open>single_current_when_ids_distinct\<close>); a load sets the flag exactly on the loaded id
  (\<open>load_sets_current_exactly\<close>) and a new chat clears it on all
  (\<open>new_chat_clears_current\<close>).
\<close>

theorem two_current_after_duplicate_id:
  "reachable (handleClickConversation 0 3000 first_chat sample_second_chat)
   \<and> current_count (savedConversations (handleClickConversation 0 3000 first_chat sample_second_chat))
       = 2"
  using sample_clock_repeats_reachable sample_clock_repeats_store
  by (simp add: sample_clock_repeats_def current_count_def truthy_def first_chat_def)

section \<open>The guard of the commit\<close>

lemma sample_second_chat_reachable: "reachable sample_second_chat"
proof -
  have "reachable sample_answered"
    by (rule reachable.other [OF reachable.start [of "[]"]]) (simp add: sample_answered_def)
  then have "reachable (handleNewChat toString 3000 (Inr ''Aperol Spritz'') sample_answered)"
    by (rule reachable.new_chat)
  then show ?thesis
    by (rule reachable.other) (simp add: sample_second_chat_def)
qed

text \<open>
  C1. Commit before switch: a switch away from an active list that is longer than the
  stored one commits the active messages first. The code breaks it through the third
  operand of its guard, \<^verbatim>\<open>chatHistory.length > length\<close>, where \<^verbatim>\<open>length\<close> is the global
  \<^verbatim>\<open>window.length\<close>. The state is reachable: the active id is \<^verbatim>\<open>null\<close> (stored count
  0), the active list holds the one message \<^verbatim>\<open>4000\<close>, the store holds the messages
  \<^verbatim>\<open>1000\<close> and \<^verbatim>\<open>1000-ai-0\<close> of the first chat. The user clicks the first chat in a
  window with one frame: nothing is committed, the active list is replaced by the
  messages of the target, and message \<^verbatim>\<open>4000\<close> is neither in the store nor in the
  active list. In a window without frames the same click commits it.
\<close>

theorem frame_count_skips_commit:
  "reachable sample_second_chat
   \<and> currentConversationId sample_second_chat = None
   \<and> currentConversationId sample_second_chat \<noteq> Some (cid first_chat)
   \<and> currentLen sample_second_chat = 0
   \<and> map mid (chatHistory sample_second_chat) = [''4000'']
   \<and> stored_message_ids (savedConversations sample_second_chat) = [''1000'', ''1000-ai-0'']
   \<and> stored_message_ids
        (savedConversations (handleClickConversation 1 5001 first_chat sample_second_chat))
       = [''1000'', ''1000-ai-0'']
   \<and> map mid (chatHistory (handleClickConversation 1 5001 first_chat sample_second_chat))
       = [''1000'', ''1000-ai-0'']
   \<and> stored_message_ids
        (savedConversations (handleClickConversation 0 5001 first_chat sample_second_chat))
       = [''4000'', ''1000'', ''1000-ai-0'']"
proof -
  have st: "currentConversationId sample_second_chat = None"
    "currentConversationId sample_second_chat \<noteq> Some (cid first_chat)"
    "map mid (chatHistory sample_second_chat) = [''4000'']"
    "stored_message_ids (savedConversations sample_second_chat) = [''1000'', ''1000-ai-0'']"
    by (simp_all add: sample_second_chat_eq initial_state_def stored_message_ids_def
        first_chat_def sample_followup_def sample_question_def sample_reply_def)
  have len: "currentLen sample_second_chat = 0"
    using st(1) by (rule currentLen_None)
  have one: "savedConversations (handleClickConversation 1 5001 first_chat sample_second_chat)
             = setCurrent (cid first_chat) (savedConversations sample_second_chat)"
    "chatHistory (handleClickConversation 1 5001 first_chat sample_second_chat) = messages first_chat"
    by (simp_all add: handleClickConversation_def handleLoadConversation_def Let_def
        sample_second_chat_eq initial_state_def)
  have none: "savedConversations (handleClickConversation 0 5001 first_chat sample_second_chat)
             = setCurrent (cid first_chat)
                 (\<lparr>lastSaved = DateObj 5001, cid = toString 5001,
                   title = currentTitle sample_second_chat,
                   messages = chatHistory sample_second_chat, ctimestamp = DateObj 5001,
                   isCurrent = None\<rparr> # savedConversations sample_second_chat)"
    by (rule click_commits_new [OF st(1)]) (simp add: sample_second_chat_eq)
  have ms: "stored_message_ids (setCurrent i saved) = stored_message_ids saved" for i saved
    by (simp add: stored_message_ids_def setCurrent_def comp_def)
  have a: "stored_message_ids
        (savedConversations (handleClickConversation 1 5001 first_chat sample_second_chat))
       = [''1000'', ''1000-ai-0'']"
    unfolding one by (simp add: ms st)
  have b: "map mid (chatHistory (handleClickConversation 1 5001 first_chat sample_second_chat))
       = [''1000'', ''1000-ai-0'']"
    unfolding one by (simp add: first_chat_def sample_question_def sample_reply_def)
  have "stored_message_ids
          (\<lparr>lastSaved = DateObj 5001, cid = toString 5001,
            title = currentTitle sample_second_chat,
            messages = chatHistory sample_second_chat, ctimestamp = DateObj 5001,
            isCurrent = None\<rparr> # savedConversations sample_second_chat)
        = map mid (chatHistory sample_second_chat)
          @ stored_message_ids (savedConversations sample_second_chat)"
    by (simp add: stored_message_ids_def)
  then have c: "stored_message_ids
        (savedConversations (handleClickConversation 0 5001 first_chat sample_second_chat))
       = [''4000'', ''1000'', ''1000-ai-0'']"
    by (simp add: none ms st)
  from sample_second_chat_reachable st len a b c show ?thesis
    by - (intro conjI, assumption+)
qed

text \<open>
  The same loss without any frame, when the active id names no stored conversation:
  the commit maps over the store and finds nothing to replace.
\<close>

lemma unstored_active_id_commit_is_lost:
  "stored_message_ids
     (savedConversations
        (handleClickConversation 0 5001 first_chat
           (sample_second_chat\<lparr>currentConversationId := Some ''7000''\<rparr>)))
   = [''1000'', ''1000-ai-0'']
   \<and> map mid
        (chatHistory
           (handleClickConversation 0 5001 first_chat
              (sample_second_chat\<lparr>currentConversationId := Some ''7000''\<rparr>)))
       = [''1000'', ''1000-ai-0'']"
  by (simp add: handleClickConversation_def handleLoadConversation_def Let_def currentLen_def
      sample_second_chat_eq initial_state_def saveCurrentConversation_def useSaveConversation_def
      truthy_id_def setCurrent_def stored_message_ids_def first_chat_def sample_question_def
      sample_reply_def)

text \<open>
  After a reload the effect that reopens the stored conversation of the restored id
  replaces the restored message list: messages that were not committed are gone.
\<close>

lemma reopen_replaces_restored_history:
  "chatHistory
     (restore_last_conversation
        (restore_on_startup
           (fst (saveStateBeforeUnload toString 9000 (Inl RequestFailed) sample_grown empty_storage))
           (initial_state [] (savedConversations sample_grown))))
   = messages negroni_sbagliato"
  by (simp add: restore_on_startup_def saveStateBeforeUnload_def JSON_round_trip
      sample_grown_def sample_viewing_def empty_storage_def Let_def initial_state_def
      restore_last_conversation_def truthy_id_def aperol_spritz_def negroni_sbagliato_def)

end
